theory Spec2Isabelle
  imports Main
begin

section \<open>Python values\<close>

text \<open>
  A Python \<open>str\<close> is a \<^typ>\<open>string\<close> whose characters are code points (the model covers
  the code points below 256), a \<open>bytes\<close> object is a \<^typ>\<open>string\<close> whose characters are
  bytes. A \<open>dict\<close> is an association list in insertion order with distinct keys.

  The values that \<open>json.loads\<close> returns and \<open>json.dumps\<close> accepts. A float is carried as
  the text \<open>json.dumps\<close> writes for it.
\<close>

datatype json =
    JNull
  | JBool bool
  | JInt int
  | JFloat string
  | JStr string
  | JArr "json list"
  | JObj "(string \<times> json) list"

text \<open>
  The exceptions of the program. \<open>FileNotFoundError\<close>, \<open>TypeError\<close> and \<open>ValueError\<close> carry
  the message they are raised with; \<open>KeyError\<close> carries the missing key.
  \<open>JSONDecodeError\<close> stands for every exception \<open>json.loads\<close> raises on its input.
\<close>

datatype error =
    FileNotFoundError string
  | TypeError string
  | ValueError string
  | KeyError string
  | IndexError string
  | AttributeError string
  | BinasciiError string
  | JSONDecodeError
  | UnicodeDecodeError
  | UnicodeEncodeError

subsection \<open>dict\<close>

definition dict_get :: "(string \<times> 'v) list \<Rightarrow> string \<Rightarrow> 'v option" where
  "dict_get d k = map_of d k"

definition dict_in :: "string \<Rightarrow> (string \<times> 'v) list \<Rightarrow> bool" where
  "dict_in k d = (k \<in> set (map fst d))"

text \<open>\<open>d[k] = v\<close>: an existing key keeps its place, a new key goes last.\<close>

fun dict_set :: "(string \<times> 'v) list \<Rightarrow> string \<Rightarrow> 'v \<Rightarrow> (string \<times> 'v) list" where
  "dict_set [] k v = [(k, v)]"
| "dict_set ((k', v') # d) k v =
     (if k' = k then (k, v) # d else (k', v') # dict_set d k v)"

text \<open>\<open>obj[key]\<close> for a \<open>str\<close> key, on any value.\<close>

fun subscript :: "json \<Rightarrow> string \<Rightarrow> error + json" where
  "subscript (JObj d) k =
     (case dict_get d k of None \<Rightarrow> Inl (KeyError k) | Some v \<Rightarrow> Inr v)"
| "subscript (JArr xs) k = Inl (TypeError ''list indices must be integers or slices, not str'')"
| "subscript (JStr s) k = Inl (TypeError ''string indices must be integers'')"
| "subscript v k = Inl (TypeError ''object is not subscriptable'')"

text \<open>\<open>obj[key] = v\<close> for a \<open>str\<close> key, on any value.\<close>

fun store :: "json \<Rightarrow> string \<Rightarrow> json \<Rightarrow> error + json" where
  "store (JObj d) k v = Inr (JObj (dict_set d k v))"
| "store (JArr xs) k v = Inl (TypeError ''list indices must be integers or slices, not str'')"
| "store obj k v = Inl (TypeError ''object does not support item assignment'')"

text \<open>\<open>obj[k1][k2]\<close>.\<close>

definition subscript2 :: "json \<Rightarrow> string \<Rightarrow> string \<Rightarrow> error + json" where
  "subscript2 obj k1 k2 =
     (case subscript obj k1 of Inl e \<Rightarrow> Inl e | Inr inner \<Rightarrow> subscript inner k2)"

text \<open>\<open>obj[k1][k2] = v\<close>: the inner object is read, updated in place, and stays where it is.\<close>

definition store2 :: "json \<Rightarrow> string \<Rightarrow> string \<Rightarrow> json \<Rightarrow> error + json" where
  "store2 obj k1 k2 v =
     (case subscript obj k1 of
        Inl e \<Rightarrow> Inl e
      | Inr inner \<Rightarrow>
          (case store inner k2 v of
             Inl e \<Rightarrow> Inl e
           | Inr inner' \<Rightarrow> store obj k1 inner'))"

subsection \<open>str\<close>

definition is_ascii :: "string \<Rightarrow> bool" where
  "is_ascii s = list_all (\<lambda>c. (of_char c :: nat) < 128) s"


text \<open>\<open>str.lower\<close> on the code points below 256.\<close>

definition char_lower :: "char \<Rightarrow> char" where
  "char_lower c =
     (let n = (of_char c :: nat)
      in if (65 \<le> n \<and> n \<le> 90) \<or> (192 \<le> n \<and> n \<le> 222 \<and> n \<noteq> 215)
         then char_of (n + 32) else c)"

definition lower :: "string \<Rightarrow> string" where
  "lower s = map char_lower s"

text \<open>\<open>str.isspace\<close> and \<open>str.strip\<close> on the code points below 256.\<close>

definition isspace :: "char \<Rightarrow> bool" where
  "isspace c =
     (let n = (of_char c :: nat)
      in (9 \<le> n \<and> n \<le> 13) \<or> (28 \<le> n \<and> n \<le> 32) \<or> n = 133 \<or> n = 160)"

definition strip :: "string \<Rightarrow> string" where
  "strip s = rev (dropWhile isspace (rev (dropWhile isspace s)))"

text \<open>\<open>s.split(c)\<close> for a one-character separator: never an empty list.\<close>

fun split :: "char \<Rightarrow> string \<Rightarrow> string list" where
  "split c [] = [[]]"
| "split c (x # xs) =
     (if x = c then [] # split c xs
      else (case split c xs of
              [] \<Rightarrow> [[x]]
            | y # ys \<Rightarrow> (x # y) # ys))"

text \<open>
  \<open>str.splitlines\<close>: a line ends at \<open>\n\<close>, \<open>\r\<close>, \<open>\r\n\<close>, \<open>\v\<close>, \<open>\f\<close>, \<open>\x1c\<close>, \<open>\x1d\<close>,
  \<open>\x1e\<close> or \<open>\x85\<close>; there is no empty last line. The first argument is the line read
  so far, reversed.
\<close>

definition is_linebreak :: "char \<Rightarrow> bool" where
  "is_linebreak c =
     (let n = (of_char c :: nat)
      in (10 \<le> n \<and> n \<le> 13) \<or> (28 \<le> n \<and> n \<le> 30) \<or> n = 133)"

fun splitlines_from :: "string \<Rightarrow> string \<Rightarrow> string list" where
  "splitlines_from cur [] = (if cur = [] then [] else [rev cur])"
| "splitlines_from cur (c # cs) =
     (if is_linebreak c then
        (case cs of
           d # ds \<Rightarrow>
             if c = CHR 0x0D \<and> d = CHR 0x0A then rev cur # splitlines_from [] ds
             else rev cur # splitlines_from [] cs
         | [] \<Rightarrow> rev cur # splitlines_from [] cs)
      else splitlines_from (c # cur) cs)"

definition splitlines :: "string \<Rightarrow> string list" where
  "splitlines s = splitlines_from [] s"

subsection \<open>base64\<close>

definition b64_alphabet :: string where
  "b64_alphabet = ''ABCDEFGHIJKLMNOPQRSTUVWXYZabcdefghijklmnopqrstuvwxyz0123456789+/''"

definition b64_char :: "nat \<Rightarrow> char" where
  "b64_char i = b64_alphabet ! (i mod 64)"

fun index_of :: "'a \<Rightarrow> 'a list \<Rightarrow> nat option" where
  "index_of x [] = None"
| "index_of x (y # ys) =
     (if x = y then Some 0 else map_option Suc (index_of x ys))"

definition b64_value :: "char \<Rightarrow> nat option" where
  "b64_value c = index_of c b64_alphabet"

text \<open>\<open>base64.b64encode\<close>: three bytes give four characters, the rest is padded with \<open>=\<close>.\<close>

fun b64encode :: "string \<Rightarrow> string" where
  "b64encode (a # b # c # rest) =
     (let x = (of_char a :: nat); y = (of_char b :: nat); z = (of_char c :: nat)
      in b64_char (x div 4) # b64_char ((x mod 4) * 16 + y div 16) #
         b64_char ((y mod 16) * 4 + z div 64) # b64_char (z mod 64) # b64encode rest)"
| "b64encode [a, b] =
     (let x = (of_char a :: nat); y = (of_char b :: nat)
      in [b64_char (x div 4), b64_char ((x mod 4) * 16 + y div 16),
          b64_char ((y mod 16) * 4), CHR ''=''])"
| "b64encode [a] =
     (let x = (of_char a :: nat)
      in [b64_char (x div 4), b64_char ((x mod 4) * 16), CHR ''='', CHR ''=''])"
| "b64encode [] = []"

text \<open>\<open>base64.urlsafe_b64encode\<close>: \<open>-\<close> for \<open>+\<close> and \<open>_\<close> for \<open>/\<close>.\<close>

definition urlsafe_char :: "char \<Rightarrow> char" where
  "urlsafe_char c = (if c = CHR ''+'' then CHR ''-'' else if c = CHR ''/'' then CHR ''_'' else c)"

definition urlsafe_b64encode :: "string \<Rightarrow> string" where
  "urlsafe_b64encode bs = map urlsafe_char (b64encode bs)"

text \<open>
  \<open>binascii.a2b_base64\<close> as \<open>base64.b64decode\<close> calls it (not strict): a character outside
  the standard alphabet is skipped, enough padding ends the input, and input that ends
  inside a group of four is an error (the message of the first error is written without
  the count of characters it reports). The state is the position in the group, the bits
  left over from the characters read, and the padding characters seen in a row.
\<close>

definition emit :: "nat \<Rightarrow> error + string \<Rightarrow> error + string" where
  "emit b r = (case r of Inl e \<Rightarrow> Inl e | Inr bs \<Rightarrow> Inr (char_of b # bs))"

fun a2b_base64 :: "nat \<Rightarrow> nat \<Rightarrow> nat \<Rightarrow> string \<Rightarrow> error + string" where
  "a2b_base64 quad_pos leftchar pads [] =
     (if quad_pos = 0 then Inr []
      else if quad_pos = 1 then
        Inl (BinasciiError ''Invalid base64-encoded string: number of data characters cannot be 1 more than a multiple of 4'')
      else Inl (BinasciiError ''Incorrect padding''))"
| "a2b_base64 quad_pos leftchar pads (c # cs) =
     (if c = CHR ''='' then
        (if 2 \<le> quad_pos \<and> 4 \<le> quad_pos + (pads + 1) then Inr []
         else a2b_base64 quad_pos leftchar (if 2 \<le> quad_pos then pads + 1 else pads) cs)
      else
        (case b64_value c of
           None \<Rightarrow> a2b_base64 quad_pos leftchar pads cs
         | Some v \<Rightarrow>
             if quad_pos = 0 then a2b_base64 1 v 0 cs
             else if quad_pos = 1 then
               emit (leftchar * 4 + v div 16) (a2b_base64 2 (v mod 16) 0 cs)
             else if quad_pos = 2 then
               emit (leftchar * 16 + v div 4) (a2b_base64 3 (v mod 4) 0 cs)
             else emit (leftchar * 64 + v) (a2b_base64 0 0 0 cs)))"

text \<open>\<open>base64.b64decode\<close> of a \<open>str\<close>: the text must be ASCII.\<close>

definition b64decode :: "string \<Rightarrow> error + string" where
  "b64decode s =
     (if is_ascii s then a2b_base64 0 0 0 s
      else Inl (ValueError ''string argument should contain only ASCII characters''))"

subsection \<open>json.dumps\<close>

text \<open>
  \<open>json.dumps\<close> with \<open>ensure_ascii\<close>: inside a string, \<open>"\<close> and \<open>\\<close> are escaped, the
  control characters have their short escapes, and every other character outside
  \<open>' '..'~'\<close> is written \<open>\u00xx\<close>.
\<close>

definition hex_digit :: "nat \<Rightarrow> char" where
  "hex_digit n = ''0123456789abcdef'' ! (n mod 16)"

definition escape_char :: "char \<Rightarrow> string" where
  "escape_char c =
     (let n = (of_char c :: nat)
      in if c = CHR ''\"'' then [CHR 0x5C, CHR ''\"'']
         else if c = CHR 0x5C then [CHR 0x5C, CHR 0x5C]
         else if n = 8 then [CHR 0x5C, CHR ''b'']
         else if n = 12 then [CHR 0x5C, CHR ''f'']
         else if n = 10 then [CHR 0x5C, CHR ''n'']
         else if n = 13 then [CHR 0x5C, CHR ''r'']
         else if n = 9 then [CHR 0x5C, CHR ''t'']
         else if n < 32 \<or> 126 < n then
           [CHR 0x5C, CHR ''u'', CHR ''0'', CHR ''0'', hex_digit (n div 16), hex_digit (n mod 16)]
         else [c])"

definition quote :: "string \<Rightarrow> string" where
  "quote s = [CHR ''\"''] @ concat (map escape_char s) @ [CHR ''\"'']"

fun str_of_nat :: "nat \<Rightarrow> string" where
  "str_of_nat n =
     (if n < 10 then [''0123456789'' ! n]
      else str_of_nat (n div 10) @ [''0123456789'' ! (n mod 10)])"

definition str_of_int :: "int \<Rightarrow> string" where
  "str_of_int i = (if i < 0 then CHR ''-'' # str_of_nat (nat (- i)) else str_of_nat (nat i))"

text \<open>\<open>sep.join(xs)\<close>.\<close>

fun join :: "string \<Rightarrow> string list \<Rightarrow> string" where
  "join sep [] = []"
| "join sep [x] = x"
| "join sep (x # y # ys) = x @ sep @ join sep (y # ys)"

text \<open>\<open>json.dumps(v, separators=(item_sep, key_sep))\<close>.\<close>

fun json_dumps :: "string \<Rightarrow> string \<Rightarrow> json \<Rightarrow> string" where
  "json_dumps item_sep key_sep JNull = ''null''"
| "json_dumps item_sep key_sep (JBool b) = (if b then ''true'' else ''false'')"
| "json_dumps item_sep key_sep (JInt i) = str_of_int i"
| "json_dumps item_sep key_sep (JFloat r) = r"
| "json_dumps item_sep key_sep (JStr s) = quote s"
| "json_dumps item_sep key_sep (JArr xs) =
     ''['' @ join item_sep (map (json_dumps item_sep key_sep) xs) @ '']''"
| "json_dumps item_sep key_sep (JObj d) =
     ''{'' @ join item_sep
        (map (\<lambda>kv. quote (fst kv) @ key_sep @ json_dumps item_sep key_sep (snd kv)) d) @ ''}''"

text \<open>The truth value of a Python value, as \<open>if v:\<close> takes it.\<close>

fun truthy :: "json \<Rightarrow> bool" where
  "truthy JNull = False"
| "truthy (JBool b) = b"
| "truthy (JInt i) = (i \<noteq> 0)"
| "truthy (JFloat r) = (r \<noteq> ''0.0'' \<and> r \<noteq> ''-0.0'')"
| "truthy (JStr s) = (s \<noteq> [])"
| "truthy (JArr xs) = (xs \<noteq> [])"
| "truthy (JObj d) = (d \<noteq> [])"

text \<open>The truth value of an optional \<open>str\<close>: neither \<open>None\<close> nor empty.\<close>

fun nonempty :: "'a list option \<Rightarrow> bool" where
  "nonempty None = False"
| "nonempty (Some s) = (s \<noteq> [])"

text \<open>\<open>x if x else d\<close> for an optional \<open>str\<close>.\<close>

definition or_default :: "string option \<Rightarrow> string \<Rightarrow> string" where
  "or_default x d = (case x of None \<Rightarrow> d | Some s \<Rightarrow> if s = [] then d else s)"

text \<open>\<open>s.encode('ascii')\<close>.\<close>

definition encode_ascii :: "string \<Rightarrow> error + string" where
  "encode_ascii s = (if is_ascii s then Inr s else Inl UnicodeEncodeError)"

section \<open>The environment\<close>

text \<open>What a view function returns: a pair or a triple.\<close>

datatype http_response =
    Response2 json int
  | Response3 json json json

text \<open>
  What Flask's URL map decides for a request: no rule has the path (\<open>NotFound\<close>), rules
  have the path but none the method (\<open>MethodNotAllowed\<close>), Flask answers by itself (the
  automatic \<open>OPTIONS\<close> response, a redirect), or the view function of a rule is called.
\<close>

datatype routing =
    NotFound
  | MethodNotAllowed
  | Answered http_response
  | View

text \<open>
  What the program asks of the operating system and of library functions that are not
  modelled here: the file system tests of \<open>os.path\<close>, \<open>os.path.abspath\<close>, the run of a shell
  command by \<open>utils.run_cmd\<close> (the exit status and the captured standard output, for an
  exit status of zero as for any other), \<open>bytes.decode('utf-8')\<close>, \<open>json.loads\<close> on a
  \<open>str\<close> and on \<open>bytes\<close>, the digest of \<open>hmac.new(key, msg, sha256)\<close>, and what
  Flask's URL map decides for the path and the method of a request, given the rules (each
  a path and a method) that the router has registered.
  \<open>None\<close> is the exception of the library function.
\<close>

record env =
  path_exists :: "string \<Rightarrow> bool"
  path_isfile :: "string \<Rightarrow> bool"
  path_isdir :: "string \<Rightarrow> bool"
  abspath :: "string \<Rightarrow> string"
  run_cmd :: "string \<Rightarrow> int \<times> string"
  decode_utf8 :: "string \<Rightarrow> string option"
  json_loads :: "string \<Rightarrow> json option"
  json_loads_bytes :: "string \<Rightarrow> json option"
  hmac_sha256 :: "string \<Rightarrow> string \<Rightarrow> string"
  url_match :: "(string \<times> string) list \<Rightarrow> string \<Rightarrow> string \<Rightarrow> routing"

section \<open>payload.py\<close>

definition AUTH_HEADER :: string where "AUTH_HEADER = ''authorization''"
definition CONTENT_TYPE :: string where "CONTENT_TYPE = ''content-type''"
definition CONTENT_LENGTH :: string where "CONTENT_LENGTH = ''content-length''"

text \<open>
  \<open>parse_jwt_payload\<close>. The loop adds \<open>len(payload) % 4\<close> padding characters.
\<close>

definition parse_jwt_payload :: "env \<Rightarrow> string \<Rightarrow> error + json" where
  "parse_jwt_payload E jwt =
     (let tokens = split CHR ''.'' jwt
      in if length tokens \<noteq> 3 then Inl (ValueError (''Invalid JWT: '' @ jwt))
         else
           (let payload = tokens ! 1;
                payload = payload @ replicate (length payload mod 4) CHR ''=''
            in case b64decode payload of
                 Inl e \<Rightarrow> Inl e
               | Inr bs \<Rightarrow>
                   (case json_loads_bytes E bs of
                      None \<Rightarrow> Inl JSONDecodeError
                    | Some v \<Rightarrow> Inr v)))"

text \<open>
  The loop \<open>while b[-1] == 61: b = b[:-1]\<close> that removes the padding. Reading the last
  byte of an empty \<open>bytes\<close> raises \<open>IndexError\<close>.
\<close>

function remove_padding :: "string \<Rightarrow> error + string" where
  "remove_padding b =
     (if b = [] then Inl (IndexError ''index out of range'')
      else if last b = CHR ''='' then remove_padding (butlast b)
      else Inr b)"
  by pat_completeness auto
termination
  by (relation "measure length") auto

text \<open>
  \<open>build_jwt\<close>. The user id and the optional name and email are \<open>str\<close>; the token is the
  three parts joined with \<open>.\<close>.
\<close>

definition JWT_HEADER :: json where
  "JWT_HEADER = JObj [(''alg'', JStr ''HS256''), (''typ'', JStr ''JWT'')]"

definition jwt_payload :: "string \<Rightarrow> string option \<Rightarrow> string option \<Rightarrow> json" where
  "jwt_payload user_id name email =
     (let p = [(''sub'', JStr user_id)];
          p = (if nonempty name then dict_set p ''name'' (JStr (the name)) else p);
          p = (if nonempty email then dict_set p ''email'' (JStr (the email)) else p)
      in JObj p)"

definition build_jwt ::
  "env \<Rightarrow> string \<Rightarrow> string option \<Rightarrow> string option \<Rightarrow> string \<Rightarrow> error + string" where
  "build_jwt E user_id name email secret =
     (let jwt_header_str = json_dumps '','' '':'' JWT_HEADER
      in case encode_ascii jwt_header_str of
           Inl e \<Rightarrow> Inl e
         | Inr header_bytes \<Rightarrow>
      (case remove_padding (urlsafe_b64encode header_bytes) of
           Inl e \<Rightarrow> Inl e
         | Inr jwt_header_b64 \<Rightarrow>
      (let jwt_payload_str = json_dumps '','' '':'' (jwt_payload user_id name email)
       in case encode_ascii jwt_payload_str of
           Inl e \<Rightarrow> Inl e
         | Inr payload_bytes \<Rightarrow>
      (case remove_padding (urlsafe_b64encode payload_bytes) of
           Inl e \<Rightarrow> Inl e
         | Inr jwt_payload_b64 \<Rightarrow>
      (case encode_ascii secret of
           Inl e \<Rightarrow> Inl e
         | Inr key \<Rightarrow>
      (let digest = hmac_sha256 E key (jwt_header_b64 @ ''.'' @ jwt_payload_b64)
       in case remove_padding (urlsafe_b64encode digest) of
           Inl e \<Rightarrow> Inl e
         | Inr signature \<Rightarrow>
             Inr (jwt_header_b64 @ ''.'' @ jwt_payload_b64 @ ''.'' @ signature)))))))"

text \<open>\<open>payload_template.format(ROUTE, METHOD, USER_AGENT, SOURCE_IP, SERVER_HOST)\<close>.\<close>

definition payload_template ::
  "string \<Rightarrow> string \<Rightarrow> string \<Rightarrow> string \<Rightarrow> string \<Rightarrow> string" where
  "payload_template ROUTE METHOD USER_AGENT SOURCE_IP SERVER_HOST =
     ''{\<newline>'' @
     ''  \"version\": \"2.0\",\<newline>'' @
     ''  \"routeKey\": \"'' @ METHOD @ '' '' @ ROUTE @ ''\",\<newline>'' @
     ''  \"rawPath\": \"'' @ ROUTE @ ''\",\<newline>'' @
     ''  \"rawQueryString\": \"\",\<newline>'' @
     ''  \"headers\": {\<newline>'' @
     ''  },\<newline>'' @
     ''  \"requestContext\": {\<newline>'' @
     ''    \"accountId\": \"\",\<newline>'' @
     ''    \"apiId\": \"\",\<newline>'' @
     ''    \"domainName\": \"'' @ SERVER_HOST @ ''\",\<newline>'' @
     ''    \"domainPrefix\": \"\",\<newline>'' @
     ''    \"http\": {\<newline>'' @
     ''      \"method\": \"'' @ METHOD @ ''\",\<newline>'' @
     ''      \"path\": \"'' @ ROUTE @ ''\",\<newline>'' @
     ''      \"protocol\": \"HTTP/1.1\",\<newline>'' @
     ''      \"sourceIp\": \"'' @ SOURCE_IP @ ''\",\<newline>'' @
     ''      \"userAgent\": \"'' @ USER_AGENT @ ''\"\<newline>'' @
     ''    },\<newline>'' @
     ''    \"requestId\": \"\",\<newline>'' @
     ''    \"routeKey\": \"'' @ METHOD @ '' '' @ ROUTE @ ''\",\<newline>'' @
     ''    \"stage\": \"$default\",\<newline>'' @
     ''    \"time\": \"\",\<newline>'' @
     ''    \"timeEpoch\": 0\<newline>'' @
     ''  },\<newline>'' @
     ''  \"isBase64Encoded\": false\<newline>'' @
     ''}\<newline>''"

text \<open>
  The arguments of \<open>build_payload\<close>. Header values and query parameter values are \<open>str\<close>,
  as the router passes them.
\<close>

record payload_args =
  route :: string
  http_method :: string
  user_agent :: "string option"
  source_ip :: "string option"
  server_hostname :: "string option"
  headers :: "(string \<times> string) list option"
  params :: "(string \<times> string) list option"
  body :: "string option"

text \<open>The provided headers, with the names in lower case (the last of equal names wins).\<close>

fun lower_headers ::
  "(string \<times> json) list \<Rightarrow> (string \<times> string) list \<Rightarrow> (string \<times> json) list" where
  "lower_headers hs [] = hs"
| "lower_headers hs ((header, v) # rest) =
     lower_headers (dict_set hs (lower header) (JStr v)) rest"

text \<open>The two default headers, each added only when the name is missing.\<close>

definition default_headers :: "(string \<times> json) list \<Rightarrow> string option \<Rightarrow> (string \<times> json) list" where
  "default_headers hs b =
     (let hs = (if dict_in CONTENT_LENGTH hs then hs
                else dict_set hs CONTENT_LENGTH
                       (JInt (if nonempty b then int (length (the b)) else 0)));
          hs = (if dict_in CONTENT_TYPE hs then hs
                else dict_set hs CONTENT_TYPE (JStr ''application/json''))
      in hs)"


text \<open>\<open>for header in _headers: payload['headers'][header] = _headers[header]\<close>.\<close>

fun populate_headers :: "json \<Rightarrow> (string \<times> json) list \<Rightarrow> error + json" where
  "populate_headers payload [] = Inr payload"
| "populate_headers payload ((header, v) # rest) =
     (case store2 payload ''headers'' header v of
        Inl e \<Rightarrow> Inl e
      | Inr payload' \<Rightarrow> populate_headers payload' rest)"

text \<open>
  The authorization header, when there is one, is copied again and its decoded claims are
  stored under \<open>requestContext\<close>. The claims are computed before \<open>requestContext\<close> is read.
\<close>

definition set_authorizer :: "env \<Rightarrow> json \<Rightarrow> (string \<times> json) list \<Rightarrow> error + json" where
  "set_authorizer E payload hs =
     (case dict_get hs AUTH_HEADER of
        None \<Rightarrow> Inr payload
      | Some jwt \<Rightarrow>
          (case store2 payload ''headers'' AUTH_HEADER jwt of
             Inl e \<Rightarrow> Inl e
           | Inr payload' \<Rightarrow>
               (case (case jwt of
                        JStr s \<Rightarrow> parse_jwt_payload E s
                      | _ \<Rightarrow> Inl (AttributeError ''split'')) of
                  Inl e \<Rightarrow> Inl e
                | Inr claims \<Rightarrow>
                    store2 payload' ''requestContext'' ''authorizer''
                      (JObj [(''jwt'', JObj [(''claims'', claims)]), (''scopes'', JNull)]))))"

text \<open>
  The loop over the query parameters: each one is stored under \<open>queryStringParameters\<close>
  and \<open>key=value&\<close>, both stripped, is added to the raw query string.
\<close>

fun query_loop ::
  "json \<Rightarrow> string \<Rightarrow> (string \<times> string) list \<Rightarrow> error + json \<times> string" where
  "query_loop payload rawQueryString [] = Inr (payload, rawQueryString)"
| "query_loop payload rawQueryString ((param, v) # rest) =
     (case store2 payload ''queryStringParameters'' param (JStr v) of
        Inl e \<Rightarrow> Inl e
      | Inr payload' \<Rightarrow>
          query_loop payload' (rawQueryString @ strip param @ ''='' @ strip v @ ''&'') rest)"

definition set_query :: "json \<Rightarrow> (string \<times> string) list option \<Rightarrow> error + json" where
  "set_query payload ps =
     (if nonempty ps then
        (case store payload ''queryStringParameters'' (JObj []) of
           Inl e \<Rightarrow> Inl e
         | Inr payload' \<Rightarrow>
             (case query_loop payload' [] (the ps) of
                Inl e \<Rightarrow> Inl e
              | Inr (payload'', rawQueryString) \<Rightarrow>
                  store payload'' ''rawQueryString''
                    (JStr (if rawQueryString \<noteq> [] then butlast rawQueryString
                           else rawQueryString))))
      else Inr payload)"

text \<open>\<open>if headers: for header in headers: _headers[header.lower()] = headers[header]\<close>.\<close>

definition provided_headers :: "payload_args \<Rightarrow> (string \<times> json) list" where
  "provided_headers a =
     (if nonempty (headers a) then lower_headers [] (the (headers a)) else [])"

text \<open>\<open>build_payload\<close>.\<close>

definition build_payload :: "env \<Rightarrow> payload_args \<Rightarrow> error + json" where
  "build_payload E a =
     (case json_loads E
             (payload_template (strip (route a)) (strip (http_method a))
                (or_default (user_agent a) [])
                (or_default (source_ip a) ''0.0.0.0'')
                (or_default (server_hostname a) ''localhost'')) of
        None \<Rightarrow> Inl JSONDecodeError
      | Some payload \<Rightarrow>
          (let hs = default_headers (provided_headers a) (body a)
           in case populate_headers payload hs of
                Inl e \<Rightarrow> Inl e
              | Inr payload \<Rightarrow>
           (case (if nonempty (body a) then store payload ''body'' (JStr (the (body a)))
                  else Inr payload) of
                Inl e \<Rightarrow> Inl e
              | Inr payload \<Rightarrow>
           (case set_authorizer E payload hs of
                Inl e \<Rightarrow> Inl e
              | Inr payload \<Rightarrow> set_query payload (params a)))))"

section \<open>lambda\_utils.py\<close>

definition NODE_IMAGE_NAME :: string where
  "NODE_IMAGE_NAME = ''lambci/lambda:nodejs12.x''"

definition PYTHON_IMAGE_NAME :: string where
  "PYTHON_IMAGE_NAME = ''lambci/lambda:python3.7''"

definition IMAGE_TASK_DIR :: string where
  "IMAGE_TASK_DIR = ''/var/task''"

definition IMAGE_LAYER_DIR :: string where
  "IMAGE_LAYER_DIR = ''/opt''"

subsection \<open>os.path\<close>

text \<open>\<open>s.rfind(c)\<close>: the last index of \<open>c\<close>, or \<open>-1\<close>.\<close>

definition rfind :: "char \<Rightarrow> string \<Rightarrow> int" where
  "rfind c s =
     (case index_of c (rev s) of
        None \<Rightarrow> - 1
      | Some i \<Rightarrow> int (length s) - 1 - int i)"

text \<open>\<open>os.path.basename\<close> and \<open>os.path.dirname\<close> of \<open>posixpath\<close>.\<close>

definition basename :: "string \<Rightarrow> string" where
  "basename p = drop (nat (rfind CHR ''/'' p + 1)) p"

definition dirname :: "string \<Rightarrow> string" where
  "dirname p =
     (let head = take (nat (rfind CHR ''/'' p + 1)) p
      in if head \<noteq> [] \<and> head \<noteq> replicate (length head) CHR ''/''
         then rev (dropWhile (\<lambda>c. c = CHR ''/'') (rev head))
         else head)"

text \<open>
  \<open>os.path.splitext\<close>: the extension starts at the last dot of the last component,
  unless only dots stand before it in that component.
\<close>

definition splitext :: "string \<Rightarrow> string \<times> string" where
  "splitext p =
     (let sepIndex = rfind CHR ''/'' p;
          dotIndex = rfind CHR ''.'' p
      in if dotIndex > sepIndex \<and>
            list_ex (\<lambda>c. c \<noteq> CHR ''.'')
              (take (nat (dotIndex - (sepIndex + 1))) (drop (nat (sepIndex + 1)) p))
         then (take (nat dotIndex) p, drop (nat dotIndex) p)
         else (p, []))"

subsection \<open>run\_function\<close>

record function_args =
  function_file_path :: string
  payload :: "json option"
  layer_dir :: "string option"
  docker_network_name :: "string option"
  environment :: "(string \<times> string) list option"
  handler_name :: string

text \<open>
  The dictionary that \<open>run_function\<close> returns. The three error fields are present only
  when the return value is true; \<open>JNull\<close> is Python's \<open>None\<close>.
\<close>

record response =
  raw_output :: "string option"
  return_value :: json
  exit_status :: int
  stdout :: string
  error_type :: "json option"
  error_message :: "json option"
  stack_trace :: "json option"

text \<open>The runtime of a function file, from its extension.\<close>

definition select_runtime :: "string \<Rightarrow> error + string" where
  "select_runtime p =
     (let function_extension = snd (splitext p)
      in if function_extension = ''.js'' then Inr ''node''
         else if function_extension = ''.py'' then Inr ''python''
         else Inl (TypeError
                (''Cannot find matching Lambda runtime for function extension \"''
                   @ function_extension @ ''\"'')))"

definition IMAGES :: "(string \<times> string) list" where
  "IMAGES = [(''node'', NODE_IMAGE_NAME), (''python'', PYTHON_IMAGE_NAME)]"

text \<open>The layer, when there is one, is checked and mounted.\<close>

definition mount_layer :: "env \<Rightarrow> string \<Rightarrow> string option \<Rightarrow> error + string" where
  "mount_layer E cmd dir =
     (if nonempty dir then
        (let d = abspath E (the dir)
         in if \<not> path_exists E d \<and> \<not> path_isdir E d then
              Inl (FileNotFoundError
                (''Layer directory '' @ [CHR 0x27] @ d @ [CHR 0x27]
                   @ '' not found or is not a directory''))
            else Inr (cmd @ '' -v '' @ d @ '':'' @ IMAGE_LAYER_DIR @ '':ro,delegated''))
      else Inr cmd)"

text \<open>\<open>for key in environment: cmd += " -e {}='{}'".format(key, environment[key])\<close>.\<close>

fun pass_environment :: "string \<Rightarrow> (string \<times> string) list \<Rightarrow> string" where
  "pass_environment cmd [] = cmd"
| "pass_environment cmd ((key, v) # rest) =
     pass_environment (cmd @ '' -e '' @ key @ ''='' @ [CHR 0x27] @ v @ [CHR 0x27]) rest"

text \<open>\<open>if payload: cmd += " '{}'".format(json.dumps(payload))\<close>: what is added.\<close>

definition payload_argument :: "json option \<Rightarrow> string" where
  "payload_argument ev =
     (case ev of
        None \<Rightarrow> []
      | Some v \<Rightarrow>
          if truthy v then '' '' @ [CHR 0x27] @ json_dumps '', '' '': '' v @ [CHR 0x27]
          else [])"

text \<open>The environment variables and the network, added to the command.\<close>

definition pass_options :: "string \<Rightarrow> function_args \<Rightarrow> string" where
  "pass_options cmd a =
     (let cmd = (if nonempty (environment a) then pass_environment cmd (the (environment a))
                 else cmd);
          cmd = (if nonempty (docker_network_name a)
                 then cmd @ '' --network '' @ the (docker_network_name a)
                 else cmd)
      in cmd)"

text \<open>
  The first part of \<open>run_function\<close>: the checks and the command line. Nothing has been
  run when it ends, with an error or with the command.
\<close>

definition build_cmd :: "env \<Rightarrow> function_args \<Rightarrow> error + string" where
  "build_cmd E a =
     (if \<not> path_exists E (function_file_path a) \<and> \<not> path_isfile E (function_file_path a)
      then
        Inl (FileNotFoundError
          (''Function '' @ [CHR 0x27] @ function_file_path a @ [CHR 0x27]
             @ '' not found or is not a file''))
      else
        (case select_runtime (function_file_path a) of
           Inl e \<Rightarrow> Inl e
         | Inr runtime \<Rightarrow>
             (case mount_layer E
                     (''docker run --rm -it -v '' @ dirname (function_file_path a) @ '':''
                        @ IMAGE_TASK_DIR @ '':ro,delegated'')
                     (layer_dir a) of
                Inl e \<Rightarrow> Inl e
              | Inr cmd \<Rightarrow>
                  (case dict_get IMAGES runtime of
                     None \<Rightarrow> Inl (KeyError runtime)
                   | Some image_name \<Rightarrow>
                       Inr (pass_options cmd a @ '' '' @ image_name @ '' ''
                              @ fst (splitext (basename (function_file_path a))) @ ''.''
                              @ handler_name a @ payload_argument (payload a))))))"

text \<open>\<open>sub in s\<close> for two \<open>str\<close>.\<close>

fun starts_with :: "string \<Rightarrow> string \<Rightarrow> bool" where
  "starts_with [] s = True"
| "starts_with (x # xs) [] = False"
| "starts_with (x # xs) (y # ys) = (x = y \<and> starts_with xs ys)"

fun contains :: "string \<Rightarrow> string \<Rightarrow> bool" where
  "contains sub [] = (sub = [])"
| "contains sub (y # ys) = (starts_with sub (y # ys) \<or> contains sub ys)"

text \<open>
  \<open>v[k] if k in v else None\<close> on any value: \<open>in\<close> is the key test of a dictionary, the
  membership test of a list and the substring test of a string, and raises on the rest;
  the subscript raises on a list and on a string.
\<close>

fun member_or_none :: "json \<Rightarrow> string \<Rightarrow> error + json" where
  "member_or_none (JObj d) k = (if dict_in k d then subscript (JObj d) k else Inr JNull)"
| "member_or_none (JArr xs) k = (if JStr k \<in> set xs then subscript (JArr xs) k else Inr JNull)"
| "member_or_none (JStr s) k = (if contains k s then subscript (JStr s) k else Inr JNull)"
| "member_or_none v k = Inl (TypeError ''argument is not iterable'')"

text \<open>
  The second part of \<open>run_function\<close>, from the exit status and the captured output of the
  command: the last line of the output is parsed.
\<close>

definition parse_output :: "env \<Rightarrow> int \<times> string \<Rightarrow> error + response" where
  "parse_output E completed =
     (case decode_utf8 E (snd completed) of
        None \<Rightarrow> Inl UnicodeDecodeError
      | Some out \<Rightarrow>
          (let ls = splitlines out
           in if ls = [] then Inl (IndexError ''list index out of range'')
              else
                (let function_output = last ls
                 in case json_loads E function_output of
                      None \<Rightarrow> Inl JSONDecodeError
                    | Some ret_value \<Rightarrow>
                        (let r = \<lparr>raw_output =
                                     (if function_output \<noteq> ''null'' then Some function_output
                                      else None),
                                   return_value = ret_value,
                                   exit_status = fst completed,
                                   stdout = out,
                                   error_type = None,
                                   error_message = None,
                                   stack_trace = None\<rparr>
                         in if truthy ret_value then
                              (case member_or_none ret_value ''errorType'' of
                                 Inl e \<Rightarrow> Inl e
                               | Inr et \<Rightarrow>
                              (case member_or_none ret_value ''errorMessage'' of
                                 Inl e \<Rightarrow> Inl e
                               | Inr em \<Rightarrow>
                              (case member_or_none ret_value ''stackTrace'' of
                                 Inl e \<Rightarrow> Inl e
                               | Inr st \<Rightarrow>
                                   Inr (r\<lparr>error_type := Some et,
                                          error_message := Some em,
                                          stack_trace := Some st\<rparr>))))
                            else Inr r))))"

text \<open>
  \<open>run_function\<close>, with the commands it has run: none when a check fails, the one
  \<open>docker run\<close> command otherwise.
\<close>

definition run_function :: "env \<Rightarrow> function_args \<Rightarrow> (error + response) \<times> string list" where
  "run_function E a =
     (case build_cmd E a of
        Inl e \<Rightarrow> (Inl e, [])
      | Inr cmd \<Rightarrow> (parse_output E (run_cmd E cmd), [cmd]))"

section \<open>api\_router.py\<close>

definition USER_AGENT :: string where
  "USER_AGENT = ''User-Agent''"

text \<open>An entry of the endpoint configuration, as \<open>extract_http_api_endpoints\<close> builds it.\<close>

record endpoint =
  ep_function :: string
  ep_method :: string
  ep_path :: string
  ep_runtime :: string
  ep_handler :: string
  ep_filepath :: string

record api_router =
  endpoint_config :: "(string \<times> endpoint) list"
  router_environment :: "(string \<times> string) list option"
  router_layer_dir :: "string option"
  router_docker_network_name :: "string option"

text \<open>What \<open>ApiRouter.__init__\<close> keeps.\<close>

definition ApiRouter ::
  "env \<Rightarrow> (string \<times> endpoint) list \<Rightarrow> (string \<times> string) list option \<Rightarrow> string option
     \<Rightarrow> string option \<Rightarrow> api_router" where
  "ApiRouter E config env_vars dir network =
     \<lparr>endpoint_config = config,
      router_environment = env_vars,
      router_layer_dir = (if nonempty dir then Some (abspath E (the dir)) else dir),
      router_docker_network_name = network\<rparr>"

text \<open>
  The request as Flask gives it to the view function: the path, the method, the query
  arguments and the headers as pairs in their order, the remote address and the body.
\<close>

record request =
  req_path :: string
  req_method :: string
  req_args :: "(string \<times> string) list"
  req_headers :: "(string \<times> string) list"
  req_remote_addr :: "string option"
  req_data :: string

text \<open>\<open>for p in request.args: params[p] = request.args.get(p)\<close>: the first value of a name.\<close>

fun collect_args ::
  "(string \<times> string) list \<Rightarrow> (string \<times> string) list \<Rightarrow> (string \<times> string) list
     \<Rightarrow> (string \<times> string) list" where
  "collect_args all_args ps [] = ps"
| "collect_args all_args ps ((p, v) # rest) =
     collect_args all_args (dict_set ps p (the (map_of all_args p))) rest"

text \<open>\<open>for header in request.headers: headers[header[0].lower()] = header[1]\<close>.\<close>

fun collect_headers ::
  "(string \<times> string) list \<Rightarrow> (string \<times> string) list \<Rightarrow> (string \<times> string) list" where
  "collect_headers hs [] = hs"
| "collect_headers hs ((name, v) # rest) = collect_headers (dict_set hs (lower name) v) rest"

text \<open>The lookup of a header by name in Flask's headers, which ignores case.\<close>

definition header_lookup :: "(string \<times> string) list \<Rightarrow> string \<Rightarrow> string option" where
  "header_lookup hs name = map_of (map (\<lambda>kv. (lower (fst kv), snd kv)) hs) (lower name)"

text \<open>\<open>key in config\<close> for any value as the key: a list or dictionary cannot be a key.\<close>

fun in_config :: "json \<Rightarrow> (string \<times> 'v) list \<Rightarrow> error + bool" where
  "in_config (JStr k) config = Inr (dict_in k config)"
| "in_config (JArr xs) config = Inl (TypeError ''unhashable type'')"
| "in_config (JObj d) config = Inl (TypeError ''unhashable type'')"
| "in_config v config = Inr False"

text \<open>
  The last part of \<open>__route_request\<close>: the response of \<open>run_function\<close> becomes the return
  value of the view function.
\<close>

definition translate :: "response \<Rightarrow> error + http_response" where
  "translate r =
     (if exit_status r \<noteq> 0 then Inr (Response2 (return_value r) 500)
      else
        (case subscript (return_value r) ''statusCode'' of
           Inl e \<Rightarrow> Inl e
         | Inr status_code \<Rightarrow>
             (case (case return_value r of
                      JObj d \<Rightarrow>
                        Inr (if dict_in ''headers'' d then the (dict_get d ''headers'') else JObj [],
                             if dict_in ''body'' d then the (dict_get d ''body'') else JStr [])
                    | _ \<Rightarrow> Inl (TypeError ''argument is not iterable'')) of
                Inl e \<Rightarrow> Inl e
              | Inr (hs, b) \<Rightarrow> Inr (Response3 b status_code hs))))"

text \<open>
  The first part of \<open>__route_request\<close>: the query arguments, the headers, the user agent
  and the decoded body go to \<open>build_payload\<close>.
\<close>

definition request_payload :: "env \<Rightarrow> request \<Rightarrow> error + json" where
  "request_payload E req =
     (let ps = collect_args (req_args req) [] (req_args req);
          hs = collect_headers [] (req_headers req);
          ua = header_lookup (req_headers req) USER_AGENT
      in case decode_utf8 E (req_data req) of
           None \<Rightarrow> Inl UnicodeDecodeError
         | Some b \<Rightarrow>
             build_payload E
               \<lparr>route = req_path req, http_method = req_method req, user_agent = ua,
                source_ip = req_remote_addr req, server_hostname = None,
                headers = Some hs, params = (if ps \<noteq> [] then Some ps else None),
                body = Some b\<rparr>)"

text \<open>The arguments \<open>__route_request\<close> calls \<open>run_function\<close> with.\<close>

definition function_call :: "api_router \<Rightarrow> endpoint \<Rightarrow> json \<Rightarrow> function_args" where
  "function_call self config event =
     \<lparr>function_file_path = ep_filepath config,
      payload = Some event,
      layer_dir = router_layer_dir self,
      docker_network_name = router_docker_network_name self,
      environment = router_environment self,
      handler_name = ep_handler config\<rparr>"

text \<open>
  \<open>__route_request\<close>, with the commands run while it handles the request.
\<close>

definition route_request ::
  "env \<Rightarrow> api_router \<Rightarrow> request \<Rightarrow> (error + http_response) \<times> string list" where
  "route_request E self req =
     (case request_payload E req of
        Inl e \<Rightarrow> (Inl e, [])
      | Inr event \<Rightarrow>
     (case subscript event ''routeKey'' of
        Inl e \<Rightarrow> (Inl e, [])
      | Inr route_key \<Rightarrow>
     (case in_config route_key (endpoint_config self) of
        Inl e \<Rightarrow> (Inl e, [])
      | Inr found \<Rightarrow>
          if \<not> found then
            (Inr (Response2 (JStr ''Endpoint configuration not found'') 500), [])
          else
            (case route_key of
               JStr k \<Rightarrow>
                 (case dict_get (endpoint_config self) k of
                    None \<Rightarrow> (Inl (KeyError k), [])
                  | Some config \<Rightarrow>
                      (case run_function E (function_call self config event) of
                         (Inl e, cmds) \<Rightarrow> (Inl e, cmds)
                       | (Inr r, cmds) \<Rightarrow> (translate r, cmds)))
             | _ \<Rightarrow> (Inl (KeyError []), [])))))"

text \<open>
  The status of the HTTP response. Flask answers an exception that leaves the view
  function with 500 (the server is run with \<open>debug=False\<close>); otherwise the status is the
  second component of what the view function returned.
\<close>

fun http_status :: "error + http_response \<Rightarrow> json" where
  "http_status (Inl e) = JInt 500"
| "http_status (Inr (Response2 b s)) = JInt s"
| "http_status (Inr (Response3 b s hs)) = s"





section \<open>A reference environment\<close>

text \<open>
  An environment to run the program in, for the concrete runs below. Its \<open>json.loads\<close> is a
  parser of JSON texts without floats and without escapes above \<open>\u00ff\<close> (on other texts
  it gives \<open>None\<close>), its \<open>decode\<close> reads UTF-8 up to code point 255, and its digest is a
  constant of the length of a SHA-256 digest: no run below looks at the digest. Its URL
  map is the one of literal rules, defined last.
\<close>

definition is_ws :: "char \<Rightarrow> bool" where
  "is_ws c = (c = CHR '' '' \<or> c = CHR 0x09 \<or> c = CHR 0x0A \<or> c = CHR 0x0D)"

definition skip_ws :: "string \<Rightarrow> string" where
  "skip_ws s = dropWhile is_ws s"

definition digit_value :: "char \<Rightarrow> nat option" where
  "digit_value c =
     (let n = (of_char c :: nat) in if 48 \<le> n \<and> n \<le> 57 then Some (n - 48) else None)"

definition hex_value :: "char \<Rightarrow> nat option" where
  "hex_value c =
     (let n = (of_char c :: nat)
      in if 48 \<le> n \<and> n \<le> 57 then Some (n - 48)
         else if 97 \<le> n \<and> n \<le> 102 then Some (n - 87)
         else if 65 \<le> n \<and> n \<le> 70 then Some (n - 55)
         else None)"

text \<open>The characters of a string after its opening quote, up to the closing one.\<close>

fun scan_string :: "string \<Rightarrow> (string \<times> string) option" where
  "scan_string [] = None"
| "scan_string (c # cs) =
     (if c = CHR ''\"'' then Some ([], cs)
      else if c = CHR 0x5C then
        (case cs of
           [] \<Rightarrow> None
         | e # es \<Rightarrow>
             if e = CHR ''u'' then
               (case es of
                  h1 # h2 # h3 # h4 # rest \<Rightarrow>
                    (case (hex_value h1, hex_value h2, hex_value h3, hex_value h4) of
                       (Some a, Some b, Some c3, Some d) \<Rightarrow>
                         if a = 0 \<and> b = 0 then
                           map_option (\<lambda>r. (char_of (16 * c3 + d) # fst r, snd r))
                             (scan_string rest)
                         else None
                     | _ \<Rightarrow> None)
                | _ \<Rightarrow> None)
             else
               (case map_of
                       [(CHR ''\"'', CHR ''\"''), (CHR 0x5C, CHR 0x5C), (CHR ''/'', CHR ''/''),
                        (CHR ''b'', CHR 0x08), (CHR ''f'', CHR 0x0C), (CHR ''n'', CHR 0x0A),
                        (CHR ''r'', CHR 0x0D), (CHR ''t'', CHR 0x09)] e of
                  None \<Rightarrow> None
                | Some x \<Rightarrow> map_option (\<lambda>r. (x # fst r, snd r)) (scan_string es)))
      else if (of_char c :: nat) < 32 then None
      else map_option (\<lambda>r. (c # fst r, snd r)) (scan_string cs))"

text \<open>The digits at the start of a text, as a number, and the rest.\<close>

fun scan_digits :: "nat \<Rightarrow> string \<Rightarrow> nat \<times> string" where
  "scan_digits acc [] = (acc, [])"
| "scan_digits acc (c # cs) =
     (case digit_value c of
        None \<Rightarrow> (acc, c # cs)
      | Some d \<Rightarrow> scan_digits (10 * acc + d) cs)"

definition starts_digit :: "string \<Rightarrow> bool" where
  "starts_digit s = (case s of [] \<Rightarrow> False | c # cs \<Rightarrow> digit_value c \<noteq> None)"

text \<open>What follows the integer part makes the number a float: a fraction or an exponent.\<close>

definition float_follows :: "string \<Rightarrow> bool" where
  "float_follows s =
     (case s of
        [] \<Rightarrow> False
      | c # cs \<Rightarrow>
          if c = CHR ''.'' then starts_digit cs
          else if c = CHR ''e'' \<or> c = CHR ''E'' then
            (case cs of
               [] \<Rightarrow> False
             | d # ds \<Rightarrow> if d = CHR ''+'' \<or> d = CHR ''-'' then starts_digit ds
                          else starts_digit cs)
          else False)"

text \<open>A number without its sign: \<open>0\<close>, or digits that do not start with \<open>0\<close>.\<close>

definition scan_int :: "string \<Rightarrow> (nat \<times> string) option" where
  "scan_int s =
     (case s of
        [] \<Rightarrow> None
      | c # cs \<Rightarrow>
          (case digit_value c of
             None \<Rightarrow> None
           | Some d \<Rightarrow>
               (let r = (if d = 0 then (0, cs) else scan_digits d cs)
                in if float_follows (snd r) then None else Some r)))"

fun scan_value :: "nat \<Rightarrow> string \<Rightarrow> (json \<times> string) option"
  and scan_members :: "nat \<Rightarrow> (string \<times> json) list \<Rightarrow> string \<Rightarrow> (json \<times> string) option"
  and scan_elements :: "nat \<Rightarrow> json list \<Rightarrow> string \<Rightarrow> (json \<times> string) option"
where
  "scan_value 0 s = None"
| "scan_value (Suc n) s =
     (case s of
        [] \<Rightarrow> None
      | c # cs \<Rightarrow>
          if c = CHR ''\"'' then map_option (\<lambda>r. (JStr (fst r), snd r)) (scan_string cs)
          else if c = CHR ''{'' then
            (case skip_ws cs of
               [] \<Rightarrow> None
             | d # ds \<Rightarrow> if d = CHR ''}'' then Some (JObj [], ds)
                          else scan_members n [] (d # ds))
          else if c = CHR ''['' then
            (case skip_ws cs of
               [] \<Rightarrow> None
             | d # ds \<Rightarrow> if d = CHR '']'' then Some (JArr [], ds)
                          else scan_elements n [] (d # ds))
          else if starts_with ''null'' s then Some (JNull, drop 4 s)
          else if starts_with ''true'' s then Some (JBool True, drop 4 s)
          else if starts_with ''false'' s then Some (JBool False, drop 5 s)
          else if c = CHR ''-'' then
            map_option (\<lambda>r. (JInt (- int (fst r)), snd r)) (scan_int cs)
          else map_option (\<lambda>r. (JInt (int (fst r)), snd r)) (scan_int s))"
| "scan_members 0 acc s = None"
| "scan_members (Suc n) acc s =
     (case s of
        [] \<Rightarrow> None
      | c # cs \<Rightarrow>
          if c \<noteq> CHR ''\"'' then None
          else
            (case scan_string cs of
               None \<Rightarrow> None
             | Some (key, rest) \<Rightarrow>
                 (case skip_ws rest of
                    [] \<Rightarrow> None
                  | d # ds \<Rightarrow>
                      if d \<noteq> CHR '':'' then None
                      else
                        (case scan_value n (skip_ws ds) of
                           None \<Rightarrow> None
                         | Some (v, rest') \<Rightarrow>
                             (case skip_ws rest' of
                                [] \<Rightarrow> None
                              | e # es \<Rightarrow>
                                  if e = CHR ''}'' then Some (JObj (dict_set acc key v), es)
                                  else if e = CHR '','' then
                                    scan_members n (dict_set acc key v) (skip_ws es)
                                  else None)))))"
| "scan_elements 0 acc s = None"
| "scan_elements (Suc n) acc s =
     (case scan_value n s of
        None \<Rightarrow> None
      | Some (v, rest) \<Rightarrow>
          (case skip_ws rest of
             [] \<Rightarrow> None
           | e # es \<Rightarrow>
               if e = CHR '']'' then Some (JArr (acc @ [v]), es)
               else if e = CHR '','' then scan_elements n (acc @ [v]) (skip_ws es)
               else None))"

definition json_loads_ref :: "string \<Rightarrow> json option" where
  "json_loads_ref s =
     (case scan_value (Suc (length s)) (skip_ws s) of
        None \<Rightarrow> None
      | Some (v, rest) \<Rightarrow> if skip_ws rest = [] then Some v else None)"

fun decode_utf8_ref :: "string \<Rightarrow> string option" where
  "decode_utf8_ref [] = Some []"
| "decode_utf8_ref (c # cs) =
     (let n = (of_char c :: nat)
      in if n < 128 then map_option (\<lambda>r. c # r) (decode_utf8_ref cs)
         else if n = 194 \<or> n = 195 then
           (case cs of
              [] \<Rightarrow> None
            | d # ds \<Rightarrow>
                (let m = (of_char d :: nat)
                 in if 128 \<le> m \<and> m < 192 then
                      map_option (\<lambda>r. char_of ((n - 192) * 64 + (m - 128)) # r)
                        (decode_utf8_ref ds)
                    else None))
         else None)"

text \<open>
  A URL map for rules that are literal paths, with their methods in upper case: a rule
  for \<open>GET\<close> also takes \<open>HEAD\<close>, and \<open>OPTIONS\<close> on the path of a rule is answered by
  Flask (the headers of that answer are left out).
\<close>

definition literal_match :: "(string \<times> string) list \<Rightarrow> string \<Rightarrow> string \<Rightarrow> routing" where
  "literal_match rs p m =
     (let same_path = filter (\<lambda>r. fst r = p) rs
      in if same_path = [] then NotFound
         else if list_ex (\<lambda>r. snd r = m \<or> (snd r = ''GET'' \<and> m = ''HEAD'')) same_path
         then View
         else if m = ''OPTIONS'' then Answered (Response3 (JStr []) (JInt 200) (JObj []))
         else MethodNotAllowed)"

definition ref_env :: env where
  "ref_env =
     \<lparr>path_exists = (\<lambda>p. False),
      path_isfile = (\<lambda>p. False),
      path_isdir = (\<lambda>p. False),
      abspath = (\<lambda>p. p),
      run_cmd = (\<lambda>cmd. (0, [])),
      decode_utf8 = decode_utf8_ref,
      json_loads = json_loads_ref,
      json_loads_bytes =
        (\<lambda>bs. case decode_utf8_ref bs of None \<Rightarrow> None | Some s \<Rightarrow> json_loads_ref s),
      hmac_sha256 = (\<lambda>key msg. replicate 32 (CHR 0x00)),
      url_match = literal_match\<rparr>"

section \<open>Example runs\<close>

text \<open>
  The reference environment with the given regular files and directories, where every
  command exits with the given status after printing the given output.
\<close>

definition sandbox_env :: "string list \<Rightarrow> string list \<Rightarrow> int \<Rightarrow> string \<Rightarrow> env" where
  "sandbox_env files dirs status out =
     ref_env\<lparr>path_exists := (\<lambda>p. p \<in> set files \<or> p \<in> set dirs),
             path_isfile := (\<lambda>p. p \<in> set files),
             path_isdir := (\<lambda>p. p \<in> set dirs),
             run_cmd := (\<lambda>cmd. (status, out))\<rparr>"

text \<open>A call of \<open>run_function\<close> with the defaults of its optional arguments.\<close>

definition call_of :: "string \<Rightarrow> function_args" where
  "call_of p =
     \<lparr>function_file_path = p, payload = None, layer_dir = None,
      docker_network_name = None, environment = None, handler_name = ''handler''\<rparr>"

text \<open>
  A router with the one route \<open>GET /hello\<close>, and a request without query arguments and
  without a body.
\<close>

definition hello_endpoint :: endpoint where
  "hello_endpoint =
     \<lparr>ep_function = ''hello'', ep_method = ''GET'', ep_path = ''/hello'',
      ep_runtime = ''python3.7'', ep_handler = ''main'',
      ep_filepath = ''/srv/functions/hello/handler.py''\<rparr>"

definition hello_router :: api_router where
  "hello_router = ApiRouter ref_env [(''GET /hello'', hello_endpoint)] None None None"

definition plain_request :: "string \<Rightarrow> string \<Rightarrow> request" where
  "plain_request m p =
     \<lparr>req_path = p, req_method = m, req_args = [],
      req_headers = [(''Host'', ''127.0.0.1:5000'')],
      req_remote_addr = Some ''127.0.0.1'', req_data = []\<rparr>"

text \<open>The event that \<open>build_payload\<close> builds for \<open>plain_request m p\<close>.\<close>

definition plain_event :: "string \<Rightarrow> string \<Rightarrow> json" where
  "plain_event m p =
     JObj
       [(''version'', JStr ''2.0''),
        (''routeKey'', JStr (m @ '' '' @ p)),
        (''rawPath'', JStr p),
        (''rawQueryString'', JStr []),
        (''headers'',
         JObj [(''host'', JStr ''127.0.0.1:5000''),
               (''content-length'', JInt 0),
               (''content-type'', JStr ''application/json'')]),
        (''requestContext'',
         JObj [(''accountId'', JStr []),
               (''apiId'', JStr []),
               (''domainName'', JStr ''localhost''),
               (''domainPrefix'', JStr []),
               (''http'',
                JObj [(''method'', JStr m),
                      (''path'', JStr p),
                      (''protocol'', JStr ''HTTP/1.1''),
                      (''sourceIp'', JStr ''127.0.0.1''),
                      (''userAgent'', JStr [])]),
               (''requestId'', JStr []),
               (''routeKey'', JStr (m @ '' '' @ p)),
               (''stage'', JStr ''$default''),
               (''time'', JStr []),
               (''timeEpoch'', JInt 0)]),
        (''isBase64Encoded'', JBool False)]"

text \<open>The command that runs the function of \<open>hello_router\<close> on \<open>GET /hello\<close>.\<close>

definition hello_cmd :: string where
  "hello_cmd =
     ''docker run --rm -it -v /srv/functions/hello:/var/task:ro,delegated ''
       @ ''lambci/lambda:python3.7 handler.main ''
       @ [CHR 0x27] @ json_dumps '', '' '': '' (plain_event ''GET'' ''/hello'') @ [CHR 0x27]"

text \<open>An environment where the function file of \<open>hello_router\<close> is there.\<close>

definition hello_env :: "int \<Rightarrow> string \<Rightarrow> env" where
  "hello_env status out = sandbox_env [''/srv/functions/hello/handler.py''] [] status out"

text \<open>The arguments of \<open>build_payload\<close> with its defaults, but for the parameters and the body.\<close>

definition payload_of :: "(string \<times> string) list option \<Rightarrow> string option \<Rightarrow> payload_args" where
  "payload_of ps b =
     \<lparr>route = ''/'', http_method = ''GET'', user_agent = None, source_ip = None,
      server_hostname = None, headers = None, params = ps, body = b\<rparr>"

text \<open>A result, or the error that came before it.\<close>

definition and_then :: "error + 'a \<Rightarrow> ('a \<Rightarrow> error + 'b) \<Rightarrow> error + 'b" where
  "and_then r f = (case r of Inl e \<Rightarrow> Inl e | Inr x \<Rightarrow> f x)"

section \<open>Token decoding\<close>

lemma a2b_base64_not_ValueError:
  "a2b_base64 q l p s \<noteq> Inl (ValueError m)"
  by (induction q l p s rule: a2b_base64.induct)
     (auto simp: emit_def split: option.splits sum.splits)

text \<open>
  C9. Decoding a token raises the \<open>ValueError\<close> of a malformed token
  (\<open>Invalid JWT: ...\<close>) if and only if splitting the value on \<open>.\<close> does not give three
  parts: with three parts the decoder goes on to the base64 and JSON steps, whose errors
  are other ones.
\<close>

theorem parse_jwt_payload_format_error_iff:
  "parse_jwt_payload E jwt = Inl (ValueError (''Invalid JWT: '' @ jwt))
     \<longleftrightarrow> length (split CHR ''.'' jwt) \<noteq> 3"
  by (auto simp: parse_jwt_payload_def Let_def b64decode_def a2b_base64_not_ValueError
           split: sum.splits option.splits)

text \<open>Two runs of C9: a value of two parts, and a token of three parts that decodes.\<close>

theorem parse_jwt_payload_format_error_iff_witness:
  "length (split CHR ''.'' ''a.b'') = 2
   \<and> parse_jwt_payload ref_env ''a.b'' = Inl (ValueError ''Invalid JWT: a.b'')
   \<and> length (split CHR ''.'' ''x.e30.y'') = 3
   \<and> parse_jwt_payload ref_env ''x.e30.y'' \<noteq> Inl (ValueError ''Invalid JWT: x.e30.y'')"
proof -
  have a: "length (split CHR ''.'' ''a.b'') = 2" and b: "length (split CHR ''.'' ''x.e30.y'') = 3"
    by code_simp+
  from parse_jwt_payload_format_error_iff [of ref_env "''a.b''"]
       parse_jwt_payload_format_error_iff [of ref_env "''x.e30.y''"] a b
  show ?thesis by simp
qed

section \<open>The token round trip\<close>

lemma split_no_sep: "c \<notin> set a \<Longrightarrow> split c a = [a]"
  by (induction a) auto

lemma split_at_sep: "c \<notin> set a \<Longrightarrow> split c (a @ c # rest) = a # split c rest"
  by (induction a) auto

lemma b64_char_in_alphabet: "b64_char i \<in> set b64_alphabet"
  unfolding b64_char_def by (rule nth_mem) (simp add: b64_alphabet_def)

lemma b64_char_not_dot: "b64_char i \<noteq> CHR ''.''"
proof
  assume "b64_char i = CHR ''.''"
  with b64_char_in_alphabet [of i] have "CHR ''.'' \<in> set b64_alphabet" by simp
  then show False by (simp add: b64_alphabet_def)
qed

lemma b64encode_no_dot: "CHR ''.'' \<notin> set (b64encode bs)"
proof (induction bs rule: b64encode.induct)
  case (1 a b c rest)
  then show ?case
    using b64_char_not_dot by (simp add: Let_def) metis
next
  case (2 a b)
  show ?case using b64_char_not_dot by (simp add: Let_def) metis
next
  case (3 a)
  show ?case using b64_char_not_dot by (simp add: Let_def) metis
next
  case 4
  show ?case by simp
qed

lemma urlsafe_char_dot: "urlsafe_char c = CHR ''.'' \<Longrightarrow> c = CHR ''.''"
  by (simp add: urlsafe_char_def split: if_splits)

lemma urlsafe_b64encode_no_dot: "CHR ''.'' \<notin> set (urlsafe_b64encode bs)"
proof
  assume "CHR ''.'' \<in> set (urlsafe_b64encode bs)"
  then obtain c where "c \<in> set (b64encode bs)" and "urlsafe_char c = CHR ''.''"
    by (auto simp: urlsafe_b64encode_def)
  with urlsafe_char_dot [of c] b64encode_no_dot [of bs] show False by simp
qed

lemma remove_padding_subset: "remove_padding b = Inr r \<Longrightarrow> set r \<subseteq> set b"
proof (induction b rule: remove_padding.induct)
  case (1 b)
  show ?case
  proof (cases "b = []")
    case True
    with "1.prems" show ?thesis by simp
  next
    case False
    show ?thesis
    proof (cases "last b = CHR ''=''")
      case True
      with False "1.prems" have "remove_padding (butlast b) = Inr r" by simp
      with "1.IH" [OF False True] have "set r \<subseteq> set (butlast b)" by simp
      then show ?thesis by (meson in_set_butlastD subset_iff)
    next
      case l: False
      with False "1.prems" show ?thesis by simp
    qed
  qed
qed

lemma jwt_header_segment:
  "encode_ascii (json_dumps '','' '':'' JWT_HEADER) = Inr ''{\"alg\":\"HS256\",\"typ\":\"JWT\"}''"
  "remove_padding (urlsafe_b64encode ''{\"alg\":\"HS256\",\"typ\":\"JWT\"}'')
     = Inr ''eyJhbGciOiJIUzI1NiIsInR5cCI6IkpXVCJ9''"
  by code_simp+

lemma jwt_payload_segment:
  "encode_ascii (json_dumps '','' '':'' (jwt_payload ''?'' (Some ''Ann'') None))
     = Inr ''{\"sub\":\"?\",\"name\":\"Ann\"}''"
  "remove_padding (urlsafe_b64encode ''{\"sub\":\"?\",\"name\":\"Ann\"}'')
     = Inr ''eyJzdWIiOiI_IiwibmFtZSI6IkFubiJ9''"
  by code_simp+

lemma jwt_payload_segment_decode:
  "b64decode (''eyJzdWIiOiI_IiwibmFtZSI6IkFubiJ9''
              @ replicate (length ''eyJzdWIiOiI_IiwibmFtZSI6IkFubiJ9'' mod 4) CHR ''='')
     = Inl (BinasciiError ''Incorrect padding'')"
  by code_simp

lemma parse_jwt_payload_segments:
  assumes "CHR ''.'' \<notin> set h" and "CHR ''.'' \<notin> set p" and "CHR ''.'' \<notin> set s"
  shows "parse_jwt_payload E (h @ ''.'' @ p @ ''.'' @ s) =
           (case b64decode (p @ replicate (length p mod 4) CHR ''='') of
              Inl e \<Rightarrow> Inl e
            | Inr bs \<Rightarrow>
                (case json_loads_bytes E bs of None \<Rightarrow> Inl JSONDecodeError | Some v \<Rightarrow> Inr v))"
  using assms by (simp add: parse_jwt_payload_def split_at_sep split_no_sep)

text \<open>
  C4. The claims \<open>{"sub":"?","name":"Ann"}\<close> are not recovered from the token built for
  them, whatever the secret and the digest: the middle part of the token holds the
  url-safe character \<open>_\<close>, which \<open>base64.b64decode\<close> drops, and decoding raises
  \<open>binascii.Error\<close>.
\<close>

theorem jwt_round_trip_fails:
  assumes "build_jwt E ''?'' (Some ''Ann'') None secret = Inr token"
  shows "parse_jwt_payload E token = Inl (BinasciiError ''Incorrect padding'')"
proof -
  have "build_jwt E ''?'' (Some ''Ann'') None secret =
          (case encode_ascii secret of
             Inl e \<Rightarrow> Inl e
           | Inr key \<Rightarrow>
               (case remove_padding
                       (urlsafe_b64encode
                          (hmac_sha256 E key
                             (''eyJhbGciOiJIUzI1NiIsInR5cCI6IkpXVCJ9'' @ ''.''
                                @ ''eyJzdWIiOiI_IiwibmFtZSI6IkFubiJ9''))) of
                  Inl e \<Rightarrow> Inl e
                | Inr signature \<Rightarrow>
                    Inr (''eyJhbGciOiJIUzI1NiIsInR5cCI6IkpXVCJ9'' @ ''.''
                           @ ''eyJzdWIiOiI_IiwibmFtZSI6IkFubiJ9'' @ ''.'' @ signature)))"
    by (simp only: build_jwt_def Let_def jwt_header_segment jwt_payload_segment sum.case)
  with assms have b:
    "(case encode_ascii secret of
        Inl e \<Rightarrow> Inl e
      | Inr key \<Rightarrow>
          (case remove_padding
                  (urlsafe_b64encode
                     (hmac_sha256 E key
                        (''eyJhbGciOiJIUzI1NiIsInR5cCI6IkpXVCJ9'' @ ''.''
                           @ ''eyJzdWIiOiI_IiwibmFtZSI6IkFubiJ9''))) of
             Inl e \<Rightarrow> Inl e
           | Inr signature \<Rightarrow>
               Inr (''eyJhbGciOiJIUzI1NiIsInR5cCI6IkpXVCJ9'' @ ''.''
                      @ ''eyJzdWIiOiI_IiwibmFtZSI6IkFubiJ9'' @ ''.'' @ signature)))
       = Inr token"
    by (simp only:)
  obtain key where k: "encode_ascii secret = Inr key"
    using b by (cases "encode_ascii secret") (simp_all only: sum.case sum.distinct)
  obtain signature where
    s: "remove_padding
          (urlsafe_b64encode
             (hmac_sha256 E key
                (''eyJhbGciOiJIUzI1NiIsInR5cCI6IkpXVCJ9'' @ ''.''
                   @ ''eyJzdWIiOiI_IiwibmFtZSI6IkFubiJ9''))) = Inr signature"
    using b unfolding k sum.case
    by (cases "remove_padding
          (urlsafe_b64encode
             (hmac_sha256 E key
                (''eyJhbGciOiJIUzI1NiIsInR5cCI6IkpXVCJ9'' @ ''.''
                   @ ''eyJzdWIiOiI_IiwibmFtZSI6IkFubiJ9'')))")
       (simp_all only: sum.case sum.distinct)
  have t: "token = ''eyJhbGciOiJIUzI1NiIsInR5cCI6IkpXVCJ9'' @ ''.''
                   @ ''eyJzdWIiOiI_IiwibmFtZSI6IkFubiJ9'' @ ''.'' @ signature"
    using b unfolding k s sum.case by (simp only: sum.inject)
  from remove_padding_subset [OF s] urlsafe_b64encode_no_dot
  have d3: "CHR ''.'' \<notin> set signature" by blast
  have d1: "CHR ''.'' \<notin> set ''eyJhbGciOiJIUzI1NiIsInR5cCI6IkpXVCJ9''"
    and d2: "CHR ''.'' \<notin> set ''eyJzdWIiOiI_IiwibmFtZSI6IkFubiJ9''"
    by simp_all
  show ?thesis
    unfolding t parse_jwt_payload_segments [OF d1 d2 d3] jwt_payload_segment_decode
    by (simp only: sum.case)
qed

text \<open>
  The run of C4 in the reference environment, and next to it the token of
  \<open>{"sub":"u1","name":"Ann"}\<close>, which decodes.
\<close>

theorem jwt_round_trip_fails_witness:
  "build_jwt ref_env ''?'' (Some ''Ann'') None ''s''
     = Inr (''eyJhbGciOiJIUzI1NiIsInR5cCI6IkpXVCJ9.eyJzdWIiOiI_IiwibmFtZSI6IkFubiJ9.''
            @ ''AAAAAAAAAAAAAAAAAAAAAAAAAAAAAAAAAAAAAAAAAAA'')
   \<and> parse_jwt_payload ref_env
       (''eyJhbGciOiJIUzI1NiIsInR5cCI6IkpXVCJ9.eyJzdWIiOiI_IiwibmFtZSI6IkFubiJ9.''
            @ ''AAAAAAAAAAAAAAAAAAAAAAAAAAAAAAAAAAAAAAAAAAA'')
     = Inl (BinasciiError ''Incorrect padding'')
   \<and> json_dumps '','' '':'' (jwt_payload ''?'' (Some ''Ann'') None)
     = ''{\"sub\":\"?\",\"name\":\"Ann\"}''
   \<and> and_then (build_jwt ref_env ''u1'' (Some ''Ann'') None ''s'') (parse_jwt_payload ref_env)
     = Inr (JObj [(''sub'', JStr ''u1''), (''name'', JStr ''Ann'')])"
proof -
  have b: "build_jwt ref_env ''?'' (Some ''Ann'') None ''s''
     = Inr (''eyJhbGciOiJIUzI1NiIsInR5cCI6IkpXVCJ9.eyJzdWIiOiI_IiwibmFtZSI6IkFubiJ9.''
            @ ''AAAAAAAAAAAAAAAAAAAAAAAAAAAAAAAAAAAAAAAAAAA'')"
    by code_simp
  have j: "json_dumps '','' '':'' (jwt_payload ''?'' (Some ''Ann'') None)
     = ''{\"sub\":\"?\",\"name\":\"Ann\"}''"
    by code_simp
  have u: "and_then (build_jwt ref_env ''u1'' (Some ''Ann'') None ''s'') (parse_jwt_payload ref_env)
     = Inr (JObj [(''sub'', JStr ''u1''), (''name'', JStr ''Ann'')])"
    by code_simp
  from jwt_round_trip_fails [OF b] b j u show ?thesis by simp
qed

section \<open>The sandbox invoker\<close>

lemma splitlines_from_Nil_iff: "splitlines_from cur s = [] \<longleftrightarrow> cur = [] \<and> s = []"
  by (induction cur s rule: splitlines_from.induct) (auto split: list.splits)

lemma splitlines_Nil_iff: "splitlines s = [] \<longleftrightarrow> s = []"
  by (simp add: splitlines_def splitlines_from_Nil_iff)

text \<open>
  C10. When the checks pass and the captured output of the sandbox has no line at all
  (it is empty), \<open>run_function\<close> does not return a result: reading the last line raises
  \<open>IndexError\<close>, after the command has run.
\<close>

theorem run_function_empty_output:
  assumes "build_cmd E a = Inr cmd"
    and "decode_utf8 E (snd (run_cmd E cmd)) = Some out"
    and "splitlines out = []"
  shows "run_function E a = (Inl (IndexError ''list index out of range''), [cmd])"
  using assms by (simp add: run_function_def parse_output_def)

text \<open>A run of C10: the function file is there and the sandbox prints nothing.\<close>

theorem run_function_empty_output_witness:
  "build_cmd (hello_env 0 []) (call_of ''/srv/functions/hello/handler.py'')
     = Inr ''docker run --rm -it -v /srv/functions/hello:/var/task:ro,delegated lambci/lambda:python3.7 handler.handler''
   \<and> splitlines [] = []
   \<and> run_function (hello_env 0 []) (call_of ''/srv/functions/hello/handler.py'')
     = (Inl (IndexError ''list index out of range''),
        [''docker run --rm -it -v /srv/functions/hello:/var/task:ro,delegated lambci/lambda:python3.7 handler.handler''])"
proof -
  let ?cmd = "''docker run --rm -it -v /srv/functions/hello:/var/task:ro,delegated lambci/lambda:python3.7 handler.handler''"
  have c: "build_cmd (hello_env 0 []) (call_of ''/srv/functions/hello/handler.py'') = Inr ?cmd"
    by code_simp
  have d: "decode_utf8 (hello_env 0 []) (snd (run_cmd (hello_env 0 []) ?cmd)) = Some []"
    by code_simp
  have s: "splitlines [] = []"
    by code_simp
  from run_function_empty_output [OF c d s] c s show ?thesis by simp
qed

lemma build_cmd_unsupported:
  assumes "path_exists E (function_file_path a) \<or> path_isfile E (function_file_path a)"
    and "snd (splitext (function_file_path a)) \<noteq> ''.js''"
    and "snd (splitext (function_file_path a)) \<noteq> ''.py''"
  shows "build_cmd E a =
           Inl (TypeError (''Cannot find matching Lambda runtime for function extension \"''
                  @ snd (splitext (function_file_path a)) @ ''\"''))"
  using assms unfolding build_cmd_def select_runtime_def Let_def by auto

lemma select_runtime_py: "snd (splitext p) = ''.py'' \<Longrightarrow> select_runtime p = Inr ''python''"
  by (simp add: select_runtime_def)

lemma select_runtime_js: "snd (splitext p) = ''.js'' \<Longrightarrow> select_runtime p = Inr ''node''"
  by (simp add: select_runtime_def)

lemma build_cmd_selected:
  assumes "path_exists E (function_file_path a) \<or> path_isfile E (function_file_path a)"
    and "select_runtime (function_file_path a) = Inr runtime"
    and "dict_get IMAGES runtime = Some image_name"
    and "mount_layer E
           (''docker run --rm -it -v '' @ dirname (function_file_path a) @ '':''
              @ IMAGE_TASK_DIR @ '':ro,delegated'')
           (layer_dir a) = Inr c"
  shows "build_cmd E a =
           Inr (pass_options c a @ '' '' @ image_name @ '' ''
                  @ fst (splitext (basename (function_file_path a))) @ ''.''
                  @ handler_name a @ payload_argument (payload a))"
  using assms unfolding build_cmd_def by auto

text \<open>
  C7 (amended). For a function file path that passes the first check (it exists): an
  extension other than \<open>.js\<close> and \<open>.py\<close> makes \<open>run_function\<close> raise the \<open>TypeError\<close> of an
  unsupported runtime with no command run; the extension \<open>.py\<close> selects the runtime
  \<open>python\<close> and the extension \<open>.js\<close> the runtime \<open>node\<close>, and once the layer is mounted
  the command that is run names the image of that runtime.
\<close>

theorem run_function_runtime_by_extension:
  assumes "path_exists E (function_file_path a) \<or> path_isfile E (function_file_path a)"
  shows "(snd (splitext (function_file_path a)) \<noteq> ''.js''
            \<and> snd (splitext (function_file_path a)) \<noteq> ''.py''
          \<longrightarrow> run_function E a =
                (Inl (TypeError
                   (''Cannot find matching Lambda runtime for function extension \"''
                      @ snd (splitext (function_file_path a)) @ ''\"'')), []))
       \<and> (snd (splitext (function_file_path a)) = ''.py''
          \<longrightarrow> select_runtime (function_file_path a) = Inr ''python''
            \<and> (\<forall>c. mount_layer E
                       (''docker run --rm -it -v '' @ dirname (function_file_path a) @ '':''
                          @ IMAGE_TASK_DIR @ '':ro,delegated'')
                       (layer_dir a) = Inr c
                 \<longrightarrow> build_cmd E a =
                       Inr (pass_options c a @ '' '' @ PYTHON_IMAGE_NAME @ '' ''
                              @ fst (splitext (basename (function_file_path a))) @ ''.''
                              @ handler_name a @ payload_argument (payload a))))
       \<and> (snd (splitext (function_file_path a)) = ''.js''
          \<longrightarrow> select_runtime (function_file_path a) = Inr ''node''
            \<and> (\<forall>c. mount_layer E
                       (''docker run --rm -it -v '' @ dirname (function_file_path a) @ '':''
                          @ IMAGE_TASK_DIR @ '':ro,delegated'')
                       (layer_dir a) = Inr c
                 \<longrightarrow> build_cmd E a =
                       Inr (pass_options c a @ '' '' @ NODE_IMAGE_NAME @ '' ''
                              @ fst (splitext (basename (function_file_path a))) @ ''.''
                              @ handler_name a @ payload_argument (payload a))))"
proof (intro conjI impI allI)
  assume "snd (splitext (function_file_path a)) \<noteq> ''.js''
            \<and> snd (splitext (function_file_path a)) \<noteq> ''.py''"
  with build_cmd_unsupported [OF assms]
  show "run_function E a =
          (Inl (TypeError
             (''Cannot find matching Lambda runtime for function extension \"''
                @ snd (splitext (function_file_path a)) @ ''\"'')), [])"
    by (simp add: run_function_def)
next
  assume "snd (splitext (function_file_path a)) = ''.py''"
  then show "select_runtime (function_file_path a) = Inr ''python''"
    by (rule select_runtime_py)
next
  fix c
  assume ext: "snd (splitext (function_file_path a)) = ''.py''"
    and m: "mount_layer E
              (''docker run --rm -it -v '' @ dirname (function_file_path a) @ '':''
                 @ IMAGE_TASK_DIR @ '':ro,delegated'')
              (layer_dir a) = Inr c"
  have i: "dict_get IMAGES ''python'' = Some PYTHON_IMAGE_NAME"
    by (simp add: IMAGES_def dict_get_def)
  from build_cmd_selected [OF assms select_runtime_py [OF ext] i m]
  show "build_cmd E a =
          Inr (pass_options c a @ '' '' @ PYTHON_IMAGE_NAME @ '' ''
                 @ fst (splitext (basename (function_file_path a))) @ ''.''
                 @ handler_name a @ payload_argument (payload a))" .
next
  assume "snd (splitext (function_file_path a)) = ''.js''"
  then show "select_runtime (function_file_path a) = Inr ''node''"
    by (rule select_runtime_js)
next
  fix c
  assume ext: "snd (splitext (function_file_path a)) = ''.js''"
    and m: "mount_layer E
              (''docker run --rm -it -v '' @ dirname (function_file_path a) @ '':''
                 @ IMAGE_TASK_DIR @ '':ro,delegated'')
              (layer_dir a) = Inr c"
  have i: "dict_get IMAGES ''node'' = Some NODE_IMAGE_NAME"
    by (simp add: IMAGES_def dict_get_def)
  from build_cmd_selected [OF assms select_runtime_js [OF ext] i m]
  show "build_cmd E a =
          Inr (pass_options c a @ '' '' @ NODE_IMAGE_NAME @ '' ''
                 @ fst (splitext (basename (function_file_path a))) @ ''.''
                 @ handler_name a @ payload_argument (payload a))" .
qed

text \<open>
  Three runs of C7, each with a file that exists: \<open>handler.txt\<close>, which is refused;
  \<open>handler.py\<close>, run in the python image; \<open>handler.js\<close>, run in the node image.
\<close>

theorem run_function_runtime_by_extension_witness:
  "path_exists (sandbox_env [''/srv/functions/hello/handler.txt''] [] 0 [])
       ''/srv/functions/hello/handler.txt''
   \<and> snd (splitext ''/srv/functions/hello/handler.txt'') = ''.txt''
   \<and> run_function (sandbox_env [''/srv/functions/hello/handler.txt''] [] 0 [])
         (call_of ''/srv/functions/hello/handler.txt'')
       = (Inl (TypeError
            ''Cannot find matching Lambda runtime for function extension \".txt\"''), [])
   \<and> snd (splitext ''/srv/functions/hello/handler.py'') = ''.py''
   \<and> select_runtime ''/srv/functions/hello/handler.py'' = Inr ''python''
   \<and> build_cmd (sandbox_env [''/srv/functions/hello/handler.py''] [] 0 [])
         (call_of ''/srv/functions/hello/handler.py'')
       = Inr ''docker run --rm -it -v /srv/functions/hello:/var/task:ro,delegated lambci/lambda:python3.7 handler.handler''
   \<and> snd (splitext ''/srv/functions/hello/handler.js'') = ''.js''
   \<and> select_runtime ''/srv/functions/hello/handler.js'' = Inr ''node''
   \<and> build_cmd (sandbox_env [''/srv/functions/hello/handler.js''] [] 0 [])
         (call_of ''/srv/functions/hello/handler.js'')
       = Inr ''docker run --rm -it -v /srv/functions/hello:/var/task:ro,delegated lambci/lambda:nodejs12.x handler.handler''"
proof -
  let ?Et = "sandbox_env [''/srv/functions/hello/handler.txt''] [] 0 []"
  let ?at = "call_of ''/srv/functions/hello/handler.txt''"
  let ?Ep = "sandbox_env [''/srv/functions/hello/handler.py''] [] 0 []"
  let ?ap = "call_of ''/srv/functions/hello/handler.py''"
  let ?Ej = "sandbox_env [''/srv/functions/hello/handler.js''] [] 0 []"
  let ?aj = "call_of ''/srv/functions/hello/handler.js''"
  let ?c = "''docker run --rm -it -v /srv/functions/hello:/var/task:ro,delegated''"
  have f: "function_file_path ?at = ''/srv/functions/hello/handler.txt''"
          "function_file_path ?ap = ''/srv/functions/hello/handler.py''"
          "function_file_path ?aj = ''/srv/functions/hello/handler.js''"
    by (simp_all add: call_of_def)
  have ht: "path_exists ?Et (function_file_path ?at) \<or> path_isfile ?Et (function_file_path ?at)"
    and hp: "path_exists ?Ep (function_file_path ?ap) \<or> path_isfile ?Ep (function_file_path ?ap)"
    and hj: "path_exists ?Ej (function_file_path ?aj) \<or> path_isfile ?Ej (function_file_path ?aj)"
    by code_simp+
  have xt: "path_exists ?Et ''/srv/functions/hello/handler.txt''"
    by code_simp
  have et: "snd (splitext ''/srv/functions/hello/handler.txt'') = ''.txt''"
    and ep: "snd (splitext ''/srv/functions/hello/handler.py'') = ''.py''"
    and ej: "snd (splitext ''/srv/functions/hello/handler.js'') = ''.js''"
    by code_simp+
  have lp: "mount_layer ?Ep
              (''docker run --rm -it -v '' @ dirname (function_file_path ?ap) @ '':''
                 @ IMAGE_TASK_DIR @ '':ro,delegated'')
              (layer_dir ?ap) = Inr ?c"
    and lj: "mount_layer ?Ej
              (''docker run --rm -it -v '' @ dirname (function_file_path ?aj) @ '':''
                 @ IMAGE_TASK_DIR @ '':ro,delegated'')
              (layer_dir ?aj) = Inr ?c"
    by code_simp+
  have cp: "pass_options ?c ?ap @ '' '' @ PYTHON_IMAGE_NAME @ '' ''
              @ fst (splitext (basename (function_file_path ?ap))) @ ''.''
              @ handler_name ?ap @ payload_argument (payload ?ap)
            = ''docker run --rm -it -v /srv/functions/hello:/var/task:ro,delegated lambci/lambda:python3.7 handler.handler''"
    and cj: "pass_options ?c ?aj @ '' '' @ NODE_IMAGE_NAME @ '' ''
              @ fst (splitext (basename (function_file_path ?aj))) @ ''.''
              @ handler_name ?aj @ payload_argument (payload ?aj)
            = ''docker run --rm -it -v /srv/functions/hello:/var/task:ro,delegated lambci/lambda:nodejs12.x handler.handler''"
    by code_simp+
  from run_function_runtime_by_extension [OF ht] et f
  have 1: "run_function ?Et ?at
       = (Inl (TypeError
            ''Cannot find matching Lambda runtime for function extension \".txt\"''), [])"
    by simp
  have ep': "snd (splitext (function_file_path ?ap)) = ''.py''"
    and ej': "snd (splitext (function_file_path ?aj)) = ''.js''"
    by code_simp+
  note p = run_function_runtime_by_extension [OF hp, THEN conjunct2, THEN conjunct1, THEN mp, OF ep']
  note j = run_function_runtime_by_extension [OF hj, THEN conjunct2, THEN conjunct2, THEN mp, OF ej']
  from p [THEN conjunct1]
  have 2: "select_runtime ''/srv/functions/hello/handler.py'' = Inr ''python''"
    unfolding f(2) .
  from p [THEN conjunct2, THEN spec, THEN mp, OF lp]
  have 3: "build_cmd ?Ep ?ap = Inr ''docker run --rm -it -v /srv/functions/hello:/var/task:ro,delegated lambci/lambda:python3.7 handler.handler''"
    unfolding cp .
  from j [THEN conjunct1]
  have 4: "select_runtime ''/srv/functions/hello/handler.js'' = Inr ''node''"
    unfolding f(3) .
  from j [THEN conjunct2, THEN spec, THEN mp, OF lj]
  have 5: "build_cmd ?Ej ?aj = Inr ''docker run --rm -it -v /srv/functions/hello:/var/task:ro,delegated lambci/lambda:nodejs12.x handler.handler''"
    unfolding cj .
  from xt et 1 ep 2 3 ej 4 5 show ?thesis by (intro conjI)
qed

text \<open>
  C7 as stated fails for a file that does not exist: the first check raises
  \<open>FileNotFoundError\<close> before the extension is looked at.
\<close>

theorem run_function_missing_file_counterexample:
  "snd (splitext ''/srv/functions/hello/handler.txt'') = ''.txt''
   \<and> run_function ref_env (call_of ''/srv/functions/hello/handler.txt'')
       = (Inl (FileNotFoundError
            (''Function '' @ [CHR 0x27] @ ''/srv/functions/hello/handler.txt'' @ [CHR 0x27]
               @ '' not found or is not a file'')), [])"
  by code_simp

text \<open>
  C5. A path that exists and is a directory is not rejected: for the directory
  \<open>/srv/functions/hello.py\<close> no \<open>FileNotFoundError\<close> is raised, the command is built and
  run, and \<open>run_function\<close> returns a result. The check is
  \<open>not os.path.exists(p) and not os.path.isfile(p)\<close>, which only a missing path fails.
\<close>

theorem run_function_accepts_directory:
  "path_isdir (sandbox_env [] [''/srv/functions/hello.py''] 0 ''{\"statusCode\": 200}'')
       ''/srv/functions/hello.py''
   \<and> \<not> path_isfile (sandbox_env [] [''/srv/functions/hello.py''] 0 ''{\"statusCode\": 200}'')
       ''/srv/functions/hello.py''
   \<and> \<not> isl (fst (run_function
                     (sandbox_env [] [''/srv/functions/hello.py''] 0 ''{\"statusCode\": 200}'')
                     (call_of ''/srv/functions/hello.py'')))
   \<and> snd (run_function (sandbox_env [] [''/srv/functions/hello.py''] 0 ''{\"statusCode\": 200}'')
         (call_of ''/srv/functions/hello.py''))
       = [''docker run --rm -it -v /srv/functions:/var/task:ro,delegated lambci/lambda:python3.7 hello.handler'']"
  by code_simp

section \<open>The router\<close>

lemma dict_in_iff_get: "dict_in k d \<longleftrightarrow> (\<exists>v. dict_get d k = Some v)"
  by (induction d) (auto simp: dict_in_def dict_get_def)

lemma member_or_none_cases:
  "(\<exists>x. member_or_none v k = Inr x) \<or> (\<exists>m. member_or_none v k = Inl (TypeError m))"
  by (cases v) (auto simp: dict_in_iff_get)

lemma parse_output_cases:
  assumes "decode_utf8 E out = Some txt" and "splitlines txt \<noteq> []"
    and "json_loads E (last (splitlines txt)) = Some v"
  shows "(\<exists>r. parse_output E (st, out) = Inr r \<and> return_value r = v \<and> exit_status r = st)
       \<or> (\<exists>m. parse_output E (st, out) = Inl (TypeError m))"
proof -
  from member_or_none_cases [of v "''errorType''"]
       member_or_none_cases [of v "''errorMessage''"]
       member_or_none_cases [of v "''stackTrace''"]
  show ?thesis using assms by (auto simp: parse_output_def Let_def)
qed

lemma parse_output_object:
  assumes "decode_utf8 E out = Some txt" and "splitlines txt \<noteq> []"
    and "json_loads E (last (splitlines txt)) = Some (JObj d)"
  shows "\<exists>r. parse_output E (st, out) = Inr r \<and> return_value r = JObj d \<and> exit_status r = st"
  using assms by (auto simp: parse_output_def Let_def dict_in_iff_get)

lemma translate_object:
  assumes "exit_status r = 0" and "return_value r = JObj d"
    and "dict_get d ''statusCode'' = Some status_code"
  shows "translate r =
           Inr (Response3 (case dict_get d ''body'' of Some b \<Rightarrow> b | None \<Rightarrow> JStr [])
                  status_code
                  (case dict_get d ''headers'' of Some h \<Rightarrow> h | None \<Rightarrow> JObj []))"
  using assms by (auto simp: translate_def dict_in_iff_get split: option.splits)

lemma translate_lacks:
  assumes "exit_status r = 0"
    and "\<not> (\<exists>d. return_value r = JObj d \<and> dict_in ''statusCode'' d)"
  shows "translate r = Inl (KeyError ''statusCode'') \<or> (\<exists>m. translate r = Inl (TypeError m))"
  using assms
  by (cases "return_value r") (auto simp: translate_def dict_in_iff_get split: option.splits)

lemma route_request_invoke:
  assumes "request_payload E req = Inr event"
    and "subscript event ''routeKey'' = Inr (JStr k)"
    and "dict_get (endpoint_config self) k = Some config"
    and "build_cmd E (function_call self config event) = Inr cmd"
  shows "route_request E self req =
           (case parse_output E (run_cmd E cmd) of
              Inl e \<Rightarrow> (Inl e, [cmd])
            | Inr r \<Rightarrow> (translate r, [cmd]))"
  using assms
  by (auto simp: route_request_def run_function_def dict_in_iff_get split: sum.splits)

text \<open>
  C6. When the route is found, the sandbox is started, exits with status 0, and the last
  line of its output parses to an object with \<open>statusCode\<close>, the view function returns the
  triple of the object's \<open>body\<close> (the empty string when absent), its \<open>statusCode\<close> and its
  \<open>headers\<close> (the empty dictionary when absent), after one command.
\<close>

theorem route_request_status_code:
  assumes "request_payload E req = Inr event"
    and "subscript event ''routeKey'' = Inr (JStr k)"
    and "dict_get (endpoint_config self) k = Some config"
    and "build_cmd E (function_call self config event) = Inr cmd"
    and "run_cmd E cmd = (0, out)"
    and "decode_utf8 E out = Some txt"
    and "splitlines txt \<noteq> []"
    and "json_loads E (last (splitlines txt)) = Some (JObj d)"
    and "dict_get d ''statusCode'' = Some status_code"
  shows "route_request E self req =
           (Inr (Response3 (case dict_get d ''body'' of Some b \<Rightarrow> b | None \<Rightarrow> JStr [])
                   status_code
                   (case dict_get d ''headers'' of Some h \<Rightarrow> h | None \<Rightarrow> JObj [])),
            [cmd])"
proof -
  from parse_output_object [OF assms(6,7,8), of 0]
  obtain r where r: "parse_output E (0, out) = Inr r" "return_value r = JObj d" "exit_status r = 0"
    by blast
  from translate_object [OF r(3) r(2) assms(9)] r(1) assms(5)
  show ?thesis by (simp add: route_request_invoke [OF assms(1-4)])
qed

text \<open>
  C2. When the route is found, the sandbox is started, exits with status 0, and the last
  line of its output parses to a value that is not an object with \<open>statusCode\<close>, the view
  function does not return: it raises \<open>KeyError('statusCode')\<close>, or a \<open>TypeError\<close> when the
  value is not a dictionary, after the one command, and the HTTP response has status 500.
\<close>

theorem route_request_missing_status_code:
  assumes "request_payload E req = Inr event"
    and "subscript event ''routeKey'' = Inr (JStr k)"
    and "dict_get (endpoint_config self) k = Some config"
    and "build_cmd E (function_call self config event) = Inr cmd"
    and "run_cmd E cmd = (0, out)"
    and "decode_utf8 E out = Some txt"
    and "splitlines txt \<noteq> []"
    and "json_loads E (last (splitlines txt)) = Some v"
    and "\<not> (\<exists>d. v = JObj d \<and> dict_in ''statusCode'' d)"
  shows "(fst (route_request E self req) = Inl (KeyError ''statusCode'')
            \<or> (\<exists>m. fst (route_request E self req) = Inl (TypeError m)))
         \<and> snd (route_request E self req) = [cmd]
         \<and> http_status (fst (route_request E self req)) = JInt 500"
proof -
  have rr: "route_request E self req =
           (case parse_output E (0, out) of
              Inl e \<Rightarrow> (Inl e, [cmd])
            | Inr r \<Rightarrow> (translate r, [cmd]))"
    using route_request_invoke [OF assms(1-4)] assms(5) by simp
  from parse_output_cases [OF assms(6,7,8), of 0]
  show ?thesis
  proof
    assume "\<exists>r. parse_output E (0, out) = Inr r \<and> return_value r = v \<and> exit_status r = 0"
    then obtain r where
      r: "parse_output E (0, out) = Inr r" "return_value r = v" "exit_status r = 0"
      by blast
    from translate_lacks [of r] r assms(9)
    have "translate r = Inl (KeyError ''statusCode'') \<or> (\<exists>m. translate r = Inl (TypeError m))"
      by simp
    then show ?thesis using rr r(1) by auto
  next
    assume "\<exists>m. parse_output E (0, out) = Inl (TypeError m)"
    then show ?thesis using rr by auto
  qed
qed

text \<open>
  A run of C6: the function prints a log line and then
  \<open>{"statusCode":201,"headers":{"x-id":"7"},"body":"ok"}\<close>.
\<close>

theorem route_request_status_code_witness:
  "request_payload
       (hello_env 0 ''START\<newline>{\"statusCode\":201,\"headers\":{\"x-id\":\"7\"},\"body\":\"ok\"}\<newline>'')
       (plain_request ''GET'' ''/hello'') = Inr (plain_event ''GET'' ''/hello'')
   \<and> route_request
       (hello_env 0 ''START\<newline>{\"statusCode\":201,\"headers\":{\"x-id\":\"7\"},\"body\":\"ok\"}\<newline>'')
       hello_router (plain_request ''GET'' ''/hello'')
     = (Inr (Response3 (JStr ''ok'') (JInt 201) (JObj [(''x-id'', JStr ''7'')])), [hello_cmd])"
proof -
  let ?out = "''START\<newline>{\"statusCode\":201,\"headers\":{\"x-id\":\"7\"},\"body\":\"ok\"}\<newline>''"
  let ?E = "hello_env 0 ?out"
  let ?d = "[(''statusCode'', JInt 201), (''headers'', JObj [(''x-id'', JStr ''7'')]),
             (''body'', JStr ''ok'')]"
  have h1: "request_payload ?E (plain_request ''GET'' ''/hello'') = Inr (plain_event ''GET'' ''/hello'')"
    by code_simp
  have h2: "subscript (plain_event ''GET'' ''/hello'') ''routeKey'' = Inr (JStr ''GET /hello'')"
    by code_simp
  have h3: "dict_get (endpoint_config hello_router) ''GET /hello'' = Some hello_endpoint"
    by code_simp
  have h4: "build_cmd ?E (function_call hello_router hello_endpoint (plain_event ''GET'' ''/hello''))
              = Inr hello_cmd"
    by code_simp
  have h5: "run_cmd ?E hello_cmd = (0, ?out)"
    by code_simp
  have h6: "decode_utf8 ?E ?out = Some ?out"
    by code_simp
  have h7: "splitlines ?out \<noteq> []"
    by code_simp
  have h8: "json_loads ?E (last (splitlines ?out)) = Some (JObj ?d)"
    by code_simp
  have h9: "dict_get ?d ''statusCode'' = Some (JInt 201)"
    by code_simp
  from route_request_status_code [OF h1 h2 h3 h4 h5 h6 h7 h8 h9] h1
  show ?thesis by (simp add: dict_get_def)
qed

text \<open>A run of C2: the function prints \<open>{"message":"ok"}\<close> and exits with status 0.\<close>

theorem route_request_missing_status_code_witness:
  "json_loads (hello_env 0 ''{\"message\":\"ok\"}\<newline>'') ''{\"message\":\"ok\"}''
       = Some (JObj [(''message'', JStr ''ok'')])
   \<and> (fst (route_request (hello_env 0 ''{\"message\":\"ok\"}\<newline>'') hello_router
              (plain_request ''GET'' ''/hello'')) = Inl (KeyError ''statusCode'')
        \<or> (\<exists>m. fst (route_request (hello_env 0 ''{\"message\":\"ok\"}\<newline>'') hello_router
              (plain_request ''GET'' ''/hello'')) = Inl (TypeError m)))
   \<and> snd (route_request (hello_env 0 ''{\"message\":\"ok\"}\<newline>'') hello_router
              (plain_request ''GET'' ''/hello'')) = [hello_cmd]
   \<and> http_status (fst (route_request (hello_env 0 ''{\"message\":\"ok\"}\<newline>'') hello_router
              (plain_request ''GET'' ''/hello''))) = JInt 500"
proof -
  let ?out = "''{\"message\":\"ok\"}\<newline>''"
  let ?E = "hello_env 0 ?out"
  let ?v = "JObj [(''message'', JStr ''ok'')]"
  have h1: "request_payload ?E (plain_request ''GET'' ''/hello'') = Inr (plain_event ''GET'' ''/hello'')"
    by code_simp
  have h2: "subscript (plain_event ''GET'' ''/hello'') ''routeKey'' = Inr (JStr ''GET /hello'')"
    by code_simp
  have h3: "dict_get (endpoint_config hello_router) ''GET /hello'' = Some hello_endpoint"
    by code_simp
  have h4: "build_cmd ?E (function_call hello_router hello_endpoint (plain_event ''GET'' ''/hello''))
              = Inr hello_cmd"
    by code_simp
  have h5: "run_cmd ?E hello_cmd = (0, ?out)"
    by code_simp
  have h6: "decode_utf8 ?E ?out = Some ?out"
    by code_simp
  have h7: "splitlines ?out \<noteq> []"
    by code_simp
  have l: "last (splitlines ?out) = ''{\"message\":\"ok\"}''"
    by code_simp
  have h8: "json_loads ?E (last (splitlines ?out)) = Some ?v"
    by code_simp
  have h9: "\<not> (\<exists>d. ?v = JObj d \<and> dict_in ''statusCode'' d)"
    by (simp add: dict_in_def)
  from route_request_missing_status_code [OF h1 h2 h3 h4 h5 h6 h7 h8 h9] h8 l
  show ?thesis by simp
qed




section \<open>The event synthesizer\<close>

lemma dict_get_dict_set:
  "dict_get (dict_set d k v) k' = (if k' = k then Some v else dict_get d k')"
  by (induction d) (auto simp: dict_get_def)



lemma dict_set_absent: "\<not> dict_in k d \<Longrightarrow> dict_set d k v = d @ [(k, v)]"
  by (induction d) (auto simp: dict_in_def)

lemma subscript_Inr_iff:
  "subscript obj k = Inr v \<longleftrightarrow> (\<exists>d. obj = JObj d \<and> dict_get d k = Some v)"
  by (cases obj) (auto split: option.splits)

lemma store_Inr_iff:
  "store obj k v = Inr obj' \<longleftrightarrow> (\<exists>d. obj = JObj d \<and> obj' = JObj (dict_set d k v))"
  by (cases obj) auto

lemma store_other:
  assumes "store obj k v = Inr obj'" and "k' \<noteq> k"
  shows "subscript obj' k' = subscript obj k'"
  using assms by (auto simp: store_Inr_iff dict_get_dict_set)

lemma store_same:
  assumes "store obj k v = Inr obj'"
  shows "subscript obj' k = Inr v"
  using assms by (auto simp: store_Inr_iff dict_get_dict_set)

lemma store2_Inr_iff:
  "store2 obj k1 k2 v = Inr obj' \<longleftrightarrow>
     (\<exists>d di. obj = JObj d \<and> dict_get d k1 = Some (JObj di)
            \<and> obj' = JObj (dict_set d k1 (JObj (dict_set di k2 v))))"
  unfolding store2_def
  by (auto simp: subscript_Inr_iff store_Inr_iff split: sum.splits)




lemma subscript2_cong:
  "subscript obj' k1 = subscript obj k1 \<Longrightarrow> subscript2 obj' k1 k2 = subscript2 obj k1 k2"
  by (simp add: subscript2_def)




















lemma butlast_concat_join:
  "xs \<noteq> [] \<Longrightarrow> butlast (concat (map (\<lambda>x. f x @ ''&'') xs)) = join ''&'' (map f xs)"
proof (induction xs rule: induct_list012)
  case 1
  then show ?case by simp
next
  case (2 x)
  show ?case by simp
next
  case (3 x y zs)
  have "concat (map (\<lambda>x. f x @ ''&'') (y # zs)) \<noteq> []" by simp
  with 3 show ?case by (simp add: butlast_append)
qed

lemma concat_amp_nonempty: "xs \<noteq> [] \<Longrightarrow> concat (map (\<lambda>x. f x @ ''&'') xs) \<noteq> []"
  by (cases xs) simp_all

lemma query_loop_result:
  assumes "query_loop (JObj d) raw ps = Inr (p', raw')"
    and "dict_get d ''queryStringParameters'' = Some (JObj acc)"
  shows "(\<exists>d'. p' = JObj d'
            \<and> dict_get d' ''queryStringParameters''
                = Some (JObj (fold (\<lambda>kv m. dict_set m (fst kv) (JStr (snd kv))) ps acc)))
       \<and> raw' = raw @ concat (map (\<lambda>kv. (strip (fst kv) @ ''='' @ strip (snd kv)) @ ''&'') ps)"
  using assms
proof (induction ps arbitrary: d raw acc)
  case Nil
  then show ?case by auto
next
  case (Cons x ps)
  obtain param v where x: "x = (param, v)" by (cases x)
  from Cons.prems(1) x obtain p1 where
    p1: "store2 (JObj d) ''queryStringParameters'' param (JStr v) = Inr p1"
    and l: "query_loop p1 (raw @ strip param @ ''='' @ strip v @ ''&'') ps = Inr (p', raw')"
    by (auto split: sum.splits)
  from p1 Cons.prems(2)
  have p1': "p1 = JObj (dict_set d ''queryStringParameters'' (JObj (dict_set acc param (JStr v))))"
    by (auto simp: store2_Inr_iff)
  have g: "dict_get (dict_set d ''queryStringParameters'' (JObj (dict_set acc param (JStr v))))
             ''queryStringParameters'' = Some (JObj (dict_set acc param (JStr v)))"
    by (simp add: dict_get_dict_set)
  from Cons.IH [OF l [unfolded p1'] g] x show ?case by simp
qed

lemma fold_dict_set_distinct:
  assumes "distinct (map fst ps)" and "set (map fst ps) \<inter> set (map fst acc) = {}"
  shows "fold (\<lambda>kv m. dict_set m (fst kv) (JStr (snd kv))) ps acc
           = acc @ map (\<lambda>kv. (fst kv, JStr (snd kv))) ps"
  using assms
proof (induction ps arbitrary: acc)
  case Nil
  then show ?case by simp
next
  case (Cons x ps)
  from Cons.prems(2) have n: "\<not> dict_in (fst x) acc" by (auto simp: dict_in_def)
  from Cons.prems have
    "set (map fst ps) \<inter> set (map fst (acc @ [(fst x, JStr (snd x))])) = {}"
    by auto
  with Cons.IH [of "acc @ [(fst x, JStr (snd x))]"] Cons.prems(1) n
  show ?case by (simp add: dict_set_absent)
qed

text \<open>
  C8 (amended). For non-empty query parameters, in the event that \<open>build_payload\<close>
  returns, \<open>rawQueryString\<close> is the pairs rendered as \<open>key=value\<close>, the key and the value
  each stripped of the white space around it, joined with \<open>&\<close> in the order of the
  parameters, with no percent-encoding; and \<open>queryStringParameters\<close> holds each pair as it
  was given.
\<close>

theorem build_payload_query:
  assumes "build_payload E a = Inr event"
    and "params a = Some ps" and "ps \<noteq> []" and "distinct (map fst ps)"
  shows "subscript event ''rawQueryString''
           = Inr (JStr (join ''&'' (map (\<lambda>kv. strip (fst kv) @ ''='' @ strip (snd kv)) ps)))
       \<and> subscript event ''queryStringParameters''
           = Inr (JObj (map (\<lambda>kv. (fst kv, JStr (snd kv))) ps))"
proof -
  from assms(1) obtain p3 where q: "set_query p3 (params a) = Inr event"
    by (auto simp: build_payload_def Let_def split: option.splits sum.splits)
  with assms(2,3) obtain p4 p5 raw where
    s: "store p3 ''queryStringParameters'' (JObj []) = Inr p4"
       "query_loop p4 [] ps = Inr (p5, raw)"
       "store p5 ''rawQueryString'' (JStr (if raw \<noteq> [] then butlast raw else raw)) = Inr event"
    by (auto simp: set_query_def split: sum.splits)
  from s(1) obtain d where d: "p4 = JObj d"
    "dict_get d ''queryStringParameters'' = Some (JObj [])"
    by (auto simp: store_Inr_iff dict_get_dict_set)
  from query_loop_result [OF s(2) [unfolded d(1)] d(2)] obtain d' where
    r: "p5 = JObj d'"
       "dict_get d' ''queryStringParameters''
          = Some (JObj (fold (\<lambda>kv m. dict_set m (fst kv) (JStr (snd kv))) ps []))"
       "raw = concat (map (\<lambda>kv. (strip (fst kv) @ ''='' @ strip (snd kv)) @ ''&'') ps)"
    by auto
  from r(3) assms(3) have raw: "raw \<noteq> []"
    "butlast raw = join ''&'' (map (\<lambda>kv. strip (fst kv) @ ''='' @ strip (snd kv)) ps)"
    by (simp_all only: concat_amp_nonempty butlast_concat_join not_False_eq_True)
  from store_same [OF s(3)] raw have 1: "subscript event ''rawQueryString''
           = Inr (JStr (join ''&'' (map (\<lambda>kv. strip (fst kv) @ ''='' @ strip (snd kv)) ps)))"
    by simp
  have "subscript event ''queryStringParameters'' = subscript p5 ''queryStringParameters''"
    by (rule store_other [OF s(3)]) simp
  with r(1,2) fold_dict_set_distinct [OF assms(4), of "[]"]
  have 2: "subscript event ''queryStringParameters''
           = Inr (JObj (map (\<lambda>kv. (fst kv, JStr (snd kv))) ps))"
    by simp
  from 1 2 show ?thesis by simp
qed

text \<open>A run of C8: the parameters \<open>{a: "1", b: "2"}\<close>.\<close>

theorem build_payload_query_witness:
  "and_then (build_payload ref_env (payload_of (Some [(''a'', ''1''), (''b'', ''2'')]) None))
     (\<lambda>ev. subscript ev ''rawQueryString'') = Inr (JStr ''a=1&b=2'')
   \<and> and_then (build_payload ref_env (payload_of (Some [(''a'', ''1''), (''b'', ''2'')]) None))
     (\<lambda>ev. subscript ev ''queryStringParameters'')
       = Inr (JObj [(''a'', JStr ''1''), (''b'', JStr ''2'')])"
proof -
  let ?ps = "[(''a'', ''1''), (''b'', ''2'')]"
  let ?a = "payload_of (Some ?ps) None"
  have e: "build_payload ref_env ?a = Inr (projr (build_payload ref_env ?a))"
    by code_simp
  have p: "params ?a = Some ?ps" "?ps \<noteq> []" "distinct (map fst ?ps)"
    by (simp_all add: payload_of_def)
  have j: "join ''&'' (map (\<lambda>kv. strip (fst kv) @ ''='' @ strip (snd kv)) ?ps) = ''a=1&b=2''"
    by code_simp
  have r: "\<And>f. and_then (build_payload ref_env ?a) f = f (projr (build_payload ref_env ?a))"
    by (subst e) (simp add: and_then_def)
  from build_payload_query [OF e p]
  have "subscript (projr (build_payload ref_env ?a)) ''rawQueryString'' = Inr (JStr ''a=1&b=2'')"
    and "subscript (projr (build_payload ref_env ?a)) ''queryStringParameters''
           = Inr (JObj [(''a'', JStr ''1''), (''b'', JStr ''2'')])"
    unfolding j by simp_all
  then show ?thesis
    unfolding r by (intro conjI)
qed

text \<open>
  C8 as stated fails: with white space around a key or a value, \<open>rawQueryString\<close> is not
  the pairs rendered as \<open>key=value\<close> and joined with \<open>&\<close>.
\<close>

theorem build_payload_query_counterexample:
  "and_then (build_payload ref_env (payload_of (Some [('' a'', ''1 ''), (''b'', ''2'')]) None))
     (\<lambda>ev. subscript ev ''rawQueryString'') = Inr (JStr ''a=1&b=2'')
   \<and> join ''&'' (map (\<lambda>kv. fst kv @ ''='' @ snd kv) [('' a'', ''1 ''), (''b'', ''2'')])
       = '' a=1 &b=2''
   \<and> ''a=1&b=2'' \<noteq> '' a=1 &b=2''"
  by code_simp

end
